theory Spec2Isabelle
  imports Complex_Main
begin

section \<open>Live interview session controller (useLiveInterview)\<close>

text \<open>
  The hook keeps four pieces of React state (\<open>isConnected\<close>, \<open>isSpeaking\<close>, \<open>error\<close>,
  \<open>logs\<close>) and a handful of refs. They are gathered in one record; every callback of the
  hook is a function from a session to a session. Times on the playback clock are JavaScript
  numbers and are modelled as reals; the timer clock counts milliseconds.
\<close>

datatype js_error =
    TypeError
  | RangeError
  | NotSupportedError
  | InvalidStateError
  | InvalidCharacterError
  | SyntaxError
  | RequestFailed
  | Error string

datatype context_state = Suspended | Running | Closed

text \<open>What \<open>videoRef.current.srcObject\<close> may hold: a media stream (its tracks, each live or
  stopped) or a media provider that has no \<open>getTracks\<close>.\<close>

datatype src_object = Stream "bool list" | OtherProvider

text \<open>A pending browser timer. The callback of the demo interval closes over its own
  \<open>demoStep\<close> counter and over \<open>role\<close> (through \<open>demoScripts\<close>).\<close>

datatype timer_action = DemoTick nat string | SpeakingOff | VideoFrame

record timer =
  timer_id :: nat
  due :: nat
  period :: "nat option"
  action :: timer_action

record session =
  isConnected :: bool
  isSpeaking :: bool
  error :: "string option"
  logs :: "string list"
  audioContextRef :: "context_state option"
  inputSourceRef :: "bool option"
  processorRef :: "bool option"
  nextStartTimeRef :: real
  videoIntervalRef :: "nat option"
  demoIntervalRef :: "nat option"
  currentInputTranscription :: string
  currentOutputTranscription :: string
  videoRef :: "src_object option option"
  timers :: "timer list"
  clock :: nat
  lastTimerId :: nat
  started :: "(real \<times> real) list"
  liveClientKey :: "string option"

text \<open>The values of \<open>useState\<close> and \<open>useRef\<close> when the hook is first rendered, around a
  given video element and timer environment.\<close>

definition initial_session :: "src_object option option \<Rightarrow> session" where
  "initial_session v =
     \<lparr> isConnected = False, isSpeaking = False, error = None, logs = [],
       audioContextRef = None, inputSourceRef = None, processorRef = None,
       nextStartTimeRef = 0, videoIntervalRef = None, demoIntervalRef = None,
       currentInputTranscription = [], currentOutputTranscription = [],
       videoRef = v, timers = [], clock = 0, lastTimerId = 0, started = [],
       liveClientKey = None \<rparr>"

definition addLog :: "string \<Rightarrow> session \<Rightarrow> session" where
  "addLog msg s = s\<lparr> logs := logs s @ [msg] \<rparr>"

subsection \<open>Inbound messages\<close>

text \<open>
  A \<open>LiveServerMessage\<close> as the handler reads it. A transcription is an object whose
  \<open>text\<close> may be undefined (\<open>Some None\<close>); the inline audio is the base64 string after
  \<open>atob\<close>: either refused, or a byte array of which only the length matters for
  scheduling. An absent or empty audio string is \<open>None\<close>.
\<close>

datatype audio_data = InvalidBase64 | PcmBytes nat

record server_message =
  outputTranscription :: "string option option"
  inputTranscription :: "string option option"
  turnComplete :: bool
  inlineData :: "audio_data option"

text \<open>String concatenation with a value that may be undefined.\<close>

definition js_string :: "string option \<Rightarrow> string" where
  "js_string t = (case t of None \<Rightarrow> ''undefined'' | Some x \<Rightarrow> x)"

record audio_buffer =
  frames :: nat
  sampleRate :: nat

definition duration :: "audio_buffer \<Rightarrow> real" where
  "duration b = real (frames b) / real (sampleRate b)"

text \<open>\<open>decode\<close>: \<open>atob\<close> raises on a string that is not base64.\<close>

definition decode :: "audio_data \<Rightarrow> js_error + nat" where
  "decode a = (case a of InvalidBase64 \<Rightarrow> Inl InvalidCharacterError | PcmBytes n \<Rightarrow> Inr n)"

text \<open>\<open>decodeAudioData\<close>: an \<open>Int16Array\<close> over a buffer of odd length raises, and so
  does \<open>createBuffer\<close> for zero frames, zero channels or a zero rate.\<close>

definition decodeAudioData :: "nat \<Rightarrow> nat \<Rightarrow> nat \<Rightarrow> js_error + audio_buffer" where
  "decodeAudioData byteLength rate numChannels =
     (if odd byteLength then Inl RangeError
      else if numChannels = 0 \<or> rate = 0 then Inl NotSupportedError
      else let frameCount = (byteLength div 2) div numChannels in
        if frameCount = 0 then Inl NotSupportedError
        else Inr \<lparr> frames = frameCount, sampleRate = rate \<rparr>)"

definition onmessage_transcription :: "server_message \<Rightarrow> session \<Rightarrow> session" where
  "onmessage_transcription msg s =
     (let s1 = (case outputTranscription msg of
                  Some t \<Rightarrow> s\<lparr> currentOutputTranscription := currentOutputTranscription s @ js_string t \<rparr>
                | None \<Rightarrow>
                    (case inputTranscription msg of
                       Some t \<Rightarrow> s\<lparr> currentInputTranscription := currentInputTranscription s @ js_string t \<rparr>
                     | None \<Rightarrow> s))
      in if turnComplete msg then
           (let s2 = (if currentInputTranscription s1 \<noteq> []
                      then (addLog (''You: '' @ currentInputTranscription s1) s1)
                             \<lparr> currentInputTranscription := [] \<rparr>
                      else s1)
            in if currentOutputTranscription s2 \<noteq> []
               then (addLog (''AI: '' @ currentOutputTranscription s2) s2)
                      \<lparr> currentOutputTranscription := [] \<rparr>
               else s2)
         else s1)"

text \<open>The audio half of the handler, at playback-clock time \<open>now\<close>. The handler is
  asynchronous: a failure rejects its promise and keeps the updates made before it.\<close>

definition onmessage_audio :: "real \<Rightarrow> server_message \<Rightarrow> session \<Rightarrow> js_error option \<times> session" where
  "onmessage_audio now msg s =
     (case inlineData msg of
        None \<Rightarrow> (None, s)
      | Some audioData \<Rightarrow>
          (let s1 = s\<lparr> isSpeaking := True \<rparr> in
           case audioContextRef s1 of
             None \<Rightarrow> (None, s1)
           | Some audioCtx \<Rightarrow>
               (case decode audioData of
                  Inl e \<Rightarrow> (Some e, s1)
                | Inr bytes \<Rightarrow>
                    (case decodeAudioData bytes 24000 1 of
                       Inl e \<Rightarrow> (Some e, s1)
                     | Inr audioBuffer \<Rightarrow>
                         (let startTime = max now (nextStartTimeRef s1) in
                          (None, s1\<lparr> started := started s1 @ [(startTime, duration audioBuffer)],
                                     nextStartTimeRef := startTime + duration audioBuffer \<rparr>))))))"

definition onmessage :: "real \<Rightarrow> server_message \<Rightarrow> session \<Rightarrow> js_error option \<times> session" where
  "onmessage now msg s = onmessage_audio now msg (onmessage_transcription msg s)"

text \<open>Messages are delivered one at a time, each with the playback clock read when its
  clip is scheduled; a rejected handler does not stop later deliveries.\<close>

fun deliver :: "(real \<times> server_message) list \<Rightarrow> session \<Rightarrow> session" where
  "deliver [] s = s"
| "deliver ((now, msg) # rest) s = deliver rest (snd (onmessage now msg s))"

text \<open>No two started clips overlap: each one begins at or after the end of the one
  started before it.\<close>

fun gapless :: "(real \<times> real) list \<Rightarrow> bool" where
  "gapless [] = True"
| "gapless [c] = True"
| "gapless ((t1, d1) # (t2, d2) # cs) = (t1 + d1 \<le> t2 \<and> gapless ((t2, d2) # cs))"

text \<open>What the scheduling theorems talk about: a message whose audio decodes (an even,
  positive number of bytes), the duration of its clip at 24 kHz mono 16-bit PCM, and the
  invariant that links the started clips to the cursor.\<close>

definition clip_duration :: "nat \<Rightarrow> real" where
  "clip_duration byteLength = real (byteLength div 2) / 24000"

definition decodable :: "server_message \<Rightarrow> bool" where
  "decodable msg = (case inlineData msg of
      Some (PcmBytes n) \<Rightarrow> even n \<and> 0 < n | _ \<Rightarrow> False)"

definition clip_of :: "server_message \<Rightarrow> real" where
  "clip_of msg = (case inlineData msg of Some (PcmBytes n) \<Rightarrow> clip_duration n | _ \<Rightarrow> 0)"

definition sched_inv :: "session \<Rightarrow> bool" where
  "sched_inv s = (gapless (started s) \<and> sorted (map fst (started s)) \<and>
      list_all (\<lambda>(a, b). a \<le> nextStartTimeRef s \<and> a + b \<le> nextStartTimeRef s) (started s))"

text \<open>Messages with a single field set, and a session whose playback context exists.\<close>

definition audio_message :: "nat \<Rightarrow> server_message" where
  "audio_message n = \<lparr> outputTranscription = None, inputTranscription = None,
      turnComplete = False, inlineData = Some (PcmBytes n) \<rparr>"

definition input_delta :: "string \<Rightarrow> server_message" where
  "input_delta t = \<lparr> outputTranscription = None, inputTranscription = Some (Some t),
      turnComplete = False, inlineData = None \<rparr>"

definition output_delta :: "string \<Rightarrow> server_message" where
  "output_delta t = \<lparr> outputTranscription = Some (Some t), inputTranscription = None,
      turnComplete = False, inlineData = None \<rparr>"

definition turn_complete :: server_message where
  "turn_complete = \<lparr> outputTranscription = None, inputTranscription = None,
      turnComplete = True, inlineData = None \<rparr>"

definition open_session :: session where
  "open_session = (initial_session None)\<lparr> audioContextRef := Some Running \<rparr>"


subsection \<open>Browser timers\<close>

text \<open>\<open>setInterval\<close> and \<open>setTimeout\<close> register a timer and return its handle, a
  positive number that no pending timer has and no earlier call returned;
  \<open>clearInterval\<close> removes the timer and never fails.\<close>

definition fresh_id :: "session \<Rightarrow> nat" where
  "fresh_id s = Suc (fold max (map timer_id (timers s)) (lastTimerId s))"

definition setInterval :: "timer_action \<Rightarrow> nat \<Rightarrow> session \<Rightarrow> nat \<times> session" where
  "setInterval a ms s =
     (fresh_id s,
      s\<lparr> timers := timers s @ [\<lparr> timer_id = fresh_id s, due = clock s + ms,
                                   period = Some ms, action = a \<rparr>],
         lastTimerId := fresh_id s \<rparr>)"


definition clearInterval :: "nat \<Rightarrow> session \<Rightarrow> session" where
  "clearInterval i s = s\<lparr> timers := filter (\<lambda>t. timer_id t \<noteq> i) (timers s) \<rparr>"

text \<open>Truthiness of a ref that holds a timer id or null.\<close>

definition truthy_id :: "nat option \<Rightarrow> bool" where
  "truthy_id r = (case r of None \<Rightarrow> False | Some i \<Rightarrow> i \<noteq> 0)"







subsection \<open>connect\<close>

text \<open>What \<open>connect\<close> reads from the browser: the result of
  \<open>localStorage.getItem('gemini_api_key')\<close> (it may raise), the \<open>process.env\<close> of the
  build, the state of a freshly constructed \<open>AudioContext\<close> (\<open>None\<close> when the window has
  no constructor) and the tracks \<open>getUserMedia\<close> grants (\<open>None\<close> when it is refused).\<close>

datatype storage_read = StorageThrows | Stored "string option"

datatype process_env = EnvThrows | NoProcess | NoEnv | EnvKey "string option"

record browser =
  localStorage :: storage_read
  process :: process_env
  audioContextClass :: "context_state option"
  getUserMedia :: "bool list option"

definition truthy :: "string option \<Rightarrow> bool" where
  "truthy v = (case v of None \<Rightarrow> False | Some x \<Rightarrow> x \<noteq> [])"

text \<open>Lines 79 to 93: the key \<open>connect\<close> ends up with.\<close>

definition connect_apiKey :: "storage_read \<Rightarrow> process_env \<Rightarrow> string option" where
  "connect_apiKey ls env =
     (let apiKey = (case ls of StorageThrows \<Rightarrow> None | Stored v \<Rightarrow> v)
      in if \<not> truthy apiKey then
           (case env of
              EnvKey k \<Rightarrow> (if truthy k then k else None)
            | _ \<Rightarrow> apiKey)
         else apiKey)"

text \<open>The body of the \<open>try\<close> block of \<open>connect\<close>; \<open>Inl\<close> carries the session as it
  stands when the exception is raised.\<close>

definition connect_body :: "string \<Rightarrow> browser \<Rightarrow> session \<Rightarrow> (js_error \<times> session) + session" where
  "connect_body role b s =
     (let s1 = s\<lparr> error := None \<rparr>;
          apiKey = connect_apiKey (localStorage b) (process b)
      in case audioContextClass b of
           None \<Rightarrow> Inl (TypeError, s1)
         | Some st \<Rightarrow>
             (let s2 = s1\<lparr> audioContextRef := Some st \<rparr>;
                  stream = getUserMedia b;
                  s3 = (case stream of
                          Some tracks \<Rightarrow>
                            (case videoRef s2 of
                               Some v \<Rightarrow> s2\<lparr> videoRef := Some (Some (Stream tracks)) \<rparr>
                             | None \<Rightarrow> s2)
                        | None \<Rightarrow> s2)
              in if stream = None \<and> truthy apiKey then
                   Inl (Error ''Microphone and Camera access are required for the live interview.'', s3)
                 else if \<not> truthy apiKey then
                   (let s4 = s3\<lparr> isConnected := True \<rparr>;
                        s5 = addLog ''[DEMO MODE] No API Key detected. Starting simulated interview session.'' s4;
                        s6 = addLog ''AI: Hello! Welcome to your interview simulation.'' s5;
                        (i, s7) = setInterval (DemoTick 0 role) 6000 s6
                    in Inr (s7\<lparr> demoIntervalRef := Some i \<rparr>))
                 else if stream = None then Inl (Error ''Stream not initialized'', s3)
                 else Inr (s3\<lparr> liveClientKey := apiKey,
                               inputSourceRef := Some True, processorRef := Some True \<rparr>)))"

text \<open>\<open>err.message\<close>; for an exception the platform raises the text is the engine's.\<close>

definition error_message :: "js_error \<Rightarrow> string" where
  "error_message e = (case e of
       Error m \<Rightarrow> m
     | TypeError \<Rightarrow> ''AudioContextClass is not a constructor''
     | _ \<Rightarrow> [])"

definition connect :: "string \<Rightarrow> browser \<Rightarrow> session \<Rightarrow> session" where
  "connect role b s =
     (case connect_body role b s of
        Inr s' \<Rightarrow> s'
      | Inl (err, s') \<Rightarrow> s'\<lparr> error := Some (error_message err), isConnected := False \<rparr>)"

text \<open>The callbacks of the live session other than \<open>onmessage\<close>.\<close>

definition onopen :: "session \<Rightarrow> session" where
  "onopen s =
     (let s1 = addLog ''Connected to Interviewer'' (s\<lparr> isConnected := True \<rparr>);
          (i, s2) = setInterval VideoFrame 1000 s1
      in s2\<lparr> videoIntervalRef := Some i \<rparr>)"

definition onclose :: "session \<Rightarrow> session" where
  "onclose s = addLog ''Connection closed'' (s\<lparr> isConnected := False \<rparr>)"

text \<open>\<open>source.onended\<close>, at playback-clock time \<open>now\<close>: the speaking flag drops only
  when the clock has reached the cursor.\<close>

definition onended :: "real \<Rightarrow> session \<Rightarrow> session" where
  "onended now s = (if nextStartTimeRef s \<le> now then s\<lparr> isSpeaking := False \<rparr> else s)"

definition onerror :: "session \<Rightarrow> session" where
  "onerror s = s\<lparr> error := Some ''Connection error occurred. Please check your network.'',
                   isConnected := False \<rparr>"

subsection \<open>disconnect\<close>

text \<open>The operations \<open>disconnect\<close> performs on its resources, with the failure each has
  when its receiver is missing or in the wrong state: a call on \<open>null\<close> raises a
  \<open>TypeError\<close>, closing a closed context is refused (counted as a failure here, though
  the platform reports it through the returned promise), and \<open>getTracks\<close> exists only on
  a media stream. The state of a context is taken to change as soon as \<open>close\<close> is called.\<close>

definition node_disconnect :: "bool option \<Rightarrow> js_error + bool option" where
  "node_disconnect r = (case r of None \<Rightarrow> Inl TypeError | Some c \<Rightarrow> Inr (Some False))"

definition context_close :: "context_state option \<Rightarrow> js_error + context_state option" where
  "context_close r =
     (case r of
        None \<Rightarrow> Inl TypeError
      | Some Closed \<Rightarrow> Inl InvalidStateError
      | Some st \<Rightarrow> Inr (Some Closed))"

definition getTracks :: "src_object \<Rightarrow> js_error + bool list" where
  "getTracks obj = (case obj of Stream tracks \<Rightarrow> Inr tracks | OtherProvider \<Rightarrow> Inl TypeError)"

definition has_getTracks :: "src_object \<Rightarrow> bool" where
  "has_getTracks obj = (case obj of Stream tracks \<Rightarrow> True | OtherProvider \<Rightarrow> False)"

text \<open>Sequencing of statements that may raise.\<close>

definition and_then :: "js_error + 'a \<Rightarrow> ('a \<Rightarrow> js_error + 'b) \<Rightarrow> js_error + 'b" where
  "and_then r f = (case r of Inl e \<Rightarrow> Inl e | Inr x \<Rightarrow> f x)"

definition stop_tracks :: "session \<Rightarrow> js_error + session" where
  "stop_tracks s =
     (case videoRef s of
        Some (Some obj) \<Rightarrow>
          and_then (if has_getTracks obj then getTracks obj else Inr [])
            (\<lambda>tracks. Inr (s\<lparr> videoRef := Some None \<rparr>))
      | _ \<Rightarrow> Inr s)"

definition disconnect :: "session \<Rightarrow> js_error + session" where
  "disconnect s =
     and_then (if inputSourceRef s \<noteq> None then node_disconnect (inputSourceRef s)
               else Inr (inputSourceRef s))
       (\<lambda>src. and_then (if processorRef s \<noteq> None then node_disconnect (processorRef s)
                         else Inr (processorRef s))
       (\<lambda>proc. and_then (if audioContextRef s \<noteq> None \<and> audioContextRef s \<noteq> Some Closed
                          then context_close (audioContextRef s) else Inr (audioContextRef s))
       (\<lambda>ctx.
          (let s1 = s\<lparr> inputSourceRef := src, processorRef := proc, audioContextRef := ctx \<rparr>;
               s2 = (if truthy_id (videoIntervalRef s1)
                     then clearInterval (the (videoIntervalRef s1)) s1 else s1);
               s3 = (if truthy_id (demoIntervalRef s2)
                     then clearInterval (the (demoIntervalRef s2)) s2 else s2)
           in and_then (stop_tracks s3)
                (\<lambda>s4. Inr (s4\<lparr> isConnected := False, isSpeaking := False,
                                 nextStartTimeRef := 0 \<rparr>))))))"


section \<open>Generation helpers (geminiService)\<close>

text \<open>The module keeps one mutable client, \<open>ai\<close>; it is passed to every helper as an
  argument. A client is the key it was built with.\<close>

datatype client = GoogleGenAI string

text \<open>\<open>initializeAI\<close>, from the value of \<open>ai\<close> before it (null when the module loads). An
  exception anywhere in its body is caught and leaves \<open>ai\<close> as it is.\<close>

definition initializeAI :: "storage_read \<Rightarrow> process_env \<Rightarrow> client option \<Rightarrow> client option" where
  "initializeAI ls env ai =
     (case ls of
        StorageThrows \<Rightarrow> ai
      | Stored localKey \<Rightarrow>
          if truthy localKey then Some (GoogleGenAI (the localKey))
          else (case env of
                  EnvKey k \<Rightarrow> (if truthy k then Some (GoogleGenAI (the k)) else ai)
                | _ \<Rightarrow> ai))"

definition hasApiKey :: "client option \<Rightarrow> bool" where
  "hasApiKey ai = (ai \<noteq> None)"

subsection \<open>Structured values and response schemas\<close>

text \<open>Parsed JSON, with an object as the list of its members in source order, and the
  schema language of the request configuration (\<open>Type.STRING\<close> with or without an
  \<open>enum\<close>, \<open>Type.NUMBER\<close>, \<open>Type.INTEGER\<close>, \<open>Type.ARRAY\<close>, \<open>Type.OBJECT\<close>).\<close>

datatype json = JNull | JBool bool | JNum int | JStr string | JArr "json list"
  | JObj "(string \<times> json) list"

datatype schema = TString | TEnum "string list" | TNumber | TInteger | TArray schema
  | TObject "(string \<times> schema) list"

text \<open>A value has the shape of a schema when every member of an object is a declared
  property of the right shape, every declared property is present, and a string with an
  \<open>enum\<close> is one of the listed values.\<close>

fun conforms :: "schema \<Rightarrow> json \<Rightarrow> bool"
  and conforms_property :: "(string \<times> schema) list \<Rightarrow> string \<Rightarrow> json \<Rightarrow> bool" where
  "conforms TString j = (case j of JStr s \<Rightarrow> True | _ \<Rightarrow> False)"
| "conforms (TEnum vs) j = (case j of JStr s \<Rightarrow> s \<in> set vs | _ \<Rightarrow> False)"
| "conforms TNumber j = (case j of JNum n \<Rightarrow> True | _ \<Rightarrow> False)"
| "conforms TInteger j = (case j of JNum n \<Rightarrow> True | _ \<Rightarrow> False)"
| "conforms (TArray t) j = (case j of JArr xs \<Rightarrow> list_all (conforms t) xs | _ \<Rightarrow> False)"
| "conforms (TObject props) j =
     (case j of
        JObj members \<Rightarrow>
          distinct (map fst members) \<and> set (map fst members) = set (map fst props) \<and>
          list_all (\<lambda>(k, v). conforms_property props k v) members
      | _ \<Rightarrow> False)"
| "conforms_property [] k v = False"
| "conforms_property ((k', t) # ps) k v = (if k = k' then conforms t v else conforms_property ps k v)"

text \<open>The same schema with its \<open>enum\<close> constraints dropped: field names and types only.\<close>

fun erase_enums :: "schema \<Rightarrow> schema" where
  "erase_enums (TEnum vs) = TString"
| "erase_enums (TArray t) = TArray (erase_enums t)"
| "erase_enums (TObject props) = TObject (map (\<lambda>(k, t). (k, erase_enums t)) props)"
| "erase_enums t = t"

definition parseResume_schema :: schema where
  "parseResume_schema =
     TObject
       [(''fullName'', TString),
        (''summary'', TString),
        (''skills'', TArray TString),
        (''yearsOfExperience'', TNumber),
        (''suggestedRoles'', TArray (TObject
           [(''title'', TString),
            (''matchScore'', TNumber),
            (''reasoning'', TString),
            (''requiredSkills'', TArray TString)]))]"

definition learningPath_schema :: schema where
  "learningPath_schema =
     TArray (TObject
       [(''title'', TString),
        (''type'', TEnum [''Course'', ''Article'', ''Video'', ''Documentation'']),
        (''url'', TString),
        (''description'', TString)])"

definition quiz_schema :: schema where
  "quiz_schema =
     TArray (TObject
       [(''question'', TString),
        (''options'', TArray TString),
        (''correctAnswer'', TInteger),
        (''explanation'', TString),
        (''category'', TEnum [''Technical'', ''Aptitude'', ''Behavioral''])])"

definition aptitudePrep_schema :: schema where
  "aptitudePrep_schema =
     TArray (TObject
       [(''title'', TString),
        (''type'', TEnum [''Article'', ''Video'', ''Documentation'']),
        (''url'', TString),
        (''description'', TString)])"

text \<open>\<open>generateFullMockTest\<close> declares the schema of \<open>generateQuiz\<close> once more.\<close>

definition fullMockTest_schema :: schema where
  "fullMockTest_schema = quiz_schema"

record JobListing =
  title :: string
  company :: string
  location :: string
  url :: string

subsection \<open>Mock data for offline mode\<close>


definition MOCK_RESUME :: json where
  "MOCK_RESUME =
     JObj
       [(''fullName'', JStr ''Alex Demo (Offline Mode)''),
        (''summary'', JStr ''This is a generated profile for the Demo Mode. The candidate is a skilled Frontend Engineer with experience in React and modern web technologies. (No API Key detected)''),
        (''skills'', JArr
             [JStr ''React'',
              JStr ''TypeScript'',
              JStr ''Tailwind CSS'',
              JStr ''Node.js'',
              JStr ''System Design'',
              JStr ''GraphQL'']),
        (''yearsOfExperience'', JNum 4),
        (''suggestedRoles'', JArr
             [JObj
                [(''title'', JStr ''Senior Frontend Engineer''),
                 (''matchScore'', JNum 92),
                 (''reasoning'', JStr ''Excellent match based on strong React and TypeScript background demonstrated in the demo profile.''),
                 (''requiredSkills'', JArr
                      [JStr ''Advanced React'',
                       JStr ''Performance Optimization'',
                       JStr ''Micro-frontends'',
                       JStr ''CI/CD''])],
              JObj
                [(''title'', JStr ''Full Stack Developer''),
                 (''matchScore'', JNum 85),
                 (''reasoning'', JStr ''Solid foundation for full stack, though stronger on the frontend. Good potential for growth.''),
                 (''requiredSkills'', JArr
                      [JStr ''Node.js'',
                       JStr ''PostgreSQL'',
                       JStr ''AWS'',
                       JStr ''Docker''])],
              JObj
                [(''title'', JStr ''Product Engineer''),
                 (''matchScore'', JNum 78),
                 (''reasoning'', JStr ''Skills align well with product-focused roles that require both technical implementation and UX sensitivity.''),
                 (''requiredSkills'', JArr
                      [JStr ''Product Analytics'',
                       JStr ''A/B Testing'',
                       JStr ''UX Research'',
                       JStr ''Agile Methodologies''])]])]"

definition MOCK_RESOURCES :: "json list" where
  "MOCK_RESOURCES =
     [JObj
        [(''title'', JStr ''Advanced React Patterns & Performance''),
         (''type'', JStr ''Course''),
         (''url'', JStr ''https://react.dev/learn''),
         (''description'', JStr ''Deep dive into concurrency, suspense, and advanced hooks for building scalable applications.'')],
      JObj
        [(''title'', JStr ''The Total TypeScript Handbook''),
         (''type'', JStr ''Documentation''),
         (''url'', JStr ''https://www.typescriptlang.org/docs/''),
         (''description'', JStr ''Comprehensive guide to static typing, generics, and type manipulation.'')],
      JObj
        [(''title'', JStr ''System Design for Client-Side Engineers''),
         (''type'', JStr ''Article''),
         (''url'', JStr ''#''),
         (''description'', JStr ''Learn how to design large-scale frontend applications, focusing on caching, state management, and network performance.'')],
      JObj
        [(''title'', JStr ''Web Accessibility (A11y) Masterclass''),
         (''type'', JStr ''Video''),
         (''url'', JStr ''#''),
         (''description'', JStr ''Ensure your applications are usable by everyone. Covers ARIA, focus management, and screen readers.'')],
      JObj
        [(''title'', JStr ''Modern CSS Architecture''),
         (''type'', JStr ''Article''),
         (''url'', JStr ''#''),
         (''description'', JStr ''Strategies for scalable CSS using Tailwind, CSS Modules, or CSS-in-JS.'')]]"

definition MOCK_QUIZ_0 :: json where
  "MOCK_QUIZ_0 =
     JObj
       [(''question'', JStr ''In React, what is the main purpose of the `useEffect` cleanup function?''),
        (''options'', JArr
             [JStr ''To clear the component's state'',
              JStr ''To cancel subscriptions, timers, or listeners to prevent memory leaks'',
              JStr ''To trigger a re-render'',
              JStr ''To delete the component from the DOM immediately'']),
        (''correctAnswer'', JNum 1),
        (''explanation'', JStr ''The cleanup function is called before the component unmounts or before the effect runs again, allowing you to clean up side effects like subscriptions.''),
        (''category'', JStr ''Technical'')]"

definition MOCK_QUIZ_1 :: json where
  "MOCK_QUIZ_1 =
     JObj
       [(''question'', JStr ''Which HTTP status code indicates that the resource was not found on the server?''),
        (''options'', JArr
             [JStr ''200 OK'',
              JStr ''301 Moved Permanently'',
              JStr ''404 Not Found'',
              JStr ''500 Internal Server Error'']),
        (''correctAnswer'', JNum 2),
        (''explanation'', JStr ''404 indicates that the server cannot find the requested resource.''),
        (''category'', JStr ''Technical'')]"

definition MOCK_QUIZ_2 :: json where
  "MOCK_QUIZ_2 =
     JObj
       [(''question'', JStr ''A bat and a ball cost $1.10 in total. The bat costs $1.00 more than the ball. How much does the ball cost?''),
        (''options'', JArr
             [JStr ''$0.05'',
              JStr ''$0.10'',
              JStr ''$0.15'',
              JStr ''$0.01'']),
        (''correctAnswer'', JNum 0),
        (''explanation'', JStr ''If Ball = x, then Bat = x + 1. Total = x + (x + 1) = 1.10. 2x = 0.10, so x = 0.05.''),
        (''category'', JStr ''Aptitude'')]"

definition MOCK_QUIZ_3 :: json where
  "MOCK_QUIZ_3 =
     JObj
       [(''question'', JStr ''What does the 'C' in ACID properties of database transactions stand for?''),
        (''options'', JArr
             [JStr ''Capacity'',
              JStr ''Consistency'',
              JStr ''Concurrency'',
              JStr ''Durability'']),
        (''correctAnswer'', JNum 1),
        (''explanation'', JStr ''ACID stands for Atomicity, Consistency, Isolation, and Durability.''),
        (''category'', JStr ''Technical'')]"

definition MOCK_QUIZ_4 :: json where
  "MOCK_QUIZ_4 =
     JObj
       [(''question'', JStr ''You have a disagreement with a senior engineer about a technical implementation. How do you handle it?''),
        (''options'', JArr
             [JStr ''Do it their way immediately to avoid conflict'',
              JStr ''Argue until they agree with you'',
              JStr ''Present data and pros/cons for both approaches and discuss openly'',
              JStr ''Escalate to the manager'']),
        (''correctAnswer'', JNum 2),
        (''explanation'', JStr ''Focusing on data, trade-offs, and open discussion is the most professional and productive approach.''),
        (''category'', JStr ''Behavioral'')]"

definition MOCK_QUIZ :: "json list" where
  "MOCK_QUIZ = [MOCK_QUIZ_0, MOCK_QUIZ_1, MOCK_QUIZ_2, MOCK_QUIZ_3, MOCK_QUIZ_4]"

definition MOCK_JOBS :: "JobListing list" where
  "MOCK_JOBS =
     [\<lparr> title = ''Senior Frontend Developer'', company = ''TechCorp (Demo)'',
        location = ''Remote'', url = ''#'' \<rparr>,
      \<lparr> title = ''React Native Engineer'', company = ''AppStudio (Demo)'',
        location = ''New York, NY'', url = ''#'' \<rparr>,
      \<lparr> title = ''UI Platform Engineer'', company = ''CloudScale (Demo)'',
        location = ''San Francisco, CA'', url = ''#'' \<rparr>,
      \<lparr> title = ''Software Engineer, Frontend'', company = ''Streamline (Demo)'',
        location = ''London, UK'', url = ''#'' \<rparr>,
      \<lparr> title = ''Full Stack Engineer'', company = ''StartupX (Demo)'',
        location = ''Austin, TX'', url = ''#'' \<rparr>]"


subsection \<open>cleanJson\<close>

text \<open>Strings are lists of 8-bit code units. \<open>\s\<close> and \<open>trim\<close> agree on what is white
  space: tab, line feed, vertical tab, form feed, carriage return, space and no-break
  space (the other members lie beyond 8 bits).\<close>

definition js_space :: "char \<Rightarrow> bool" where
  "js_space c = (of_char c \<in> {9, 10, 11, 12, 13, 32, 160 :: nat})"

text \<open>\<open>replace(/^```json\s*/, '')\<close>: the fence at the very start, with the white space after
  it.\<close>

definition strip_open_fence :: "string \<Rightarrow> string" where
  "strip_open_fence t = (if take 7 t = ''```json'' then dropWhile js_space (drop 7 t) else t)"

text \<open>\<open>replace(/\s*```$/, '')\<close>: the fence at the very end, with the white space before
  it (the leftmost match takes the whole run).\<close>

definition strip_close_fence :: "string \<Rightarrow> string" where
  "strip_close_fence t =
     (if 3 \<le> length t \<and> drop (length t - 3) t = ''```''
      then rev (dropWhile js_space (rev (take (length t - 3) t)))
      else t)"

definition trim :: "string \<Rightarrow> string" where
  "trim t = rev (dropWhile js_space (rev (dropWhile js_space t)))"

definition cleanJson :: "string \<Rightarrow> string" where
  "cleanJson t = (if t = [] then ''{}'' else trim (strip_close_fence (strip_open_fence t)))"

definition handleOfflineError :: "js_error \<Rightarrow> 'a \<Rightarrow> string \<Rightarrow> 'a" where
  "handleOfflineError err mockData ctxt = mockData"

subsection \<open>Requests\<close>

text \<open>What a helper sends (the schema it declares, whether the search tool is on; the
  prompt text is left out) and what \<open>generateContent\<close> may do: reject, or resolve with a
  response. A response carries its text and, for a search, its grounding chunks.\<close>

record request =
  responseSchema :: "schema option"
  googleSearch :: bool

record web =
  web_uri :: "string option"
  web_title :: "string option"

record grounding_chunk =
  chunk_web :: "web option"

record candidate =
  groundingChunks :: "grounding_chunk list option option"

record response =
  response_text :: "string option"
  candidates :: "candidate list option"

datatype api_result = Rejects | Resolves response

text \<open>\<open>a || b\<close> on strings that may be undefined.\<close>

definition or_else :: "string option \<Rightarrow> string \<Rightarrow> string" where
  "or_else v d = (if truthy v then the v else d)"

text \<open>The \<open>try\<close> block shared by the five JSON helpers: the request, then
  \<open>JSON.parse(cleanJson(response.text || dflt))\<close>. \<open>JSON.parse\<close> is a parameter: it
  returns \<open>None\<close> where the platform raises a \<open>SyntaxError\<close>. The cast to the result type
  checks nothing.\<close>

definition request_json ::
  "(string \<Rightarrow> json option) \<Rightarrow> (request \<Rightarrow> api_result) \<Rightarrow> schema \<Rightarrow> string \<Rightarrow> js_error + json" where
  "request_json parse generateContent sch dflt =
     (case generateContent \<lparr> responseSchema = Some sch, googleSearch = False \<rparr> of
        Rejects \<Rightarrow> Inl RequestFailed
      | Resolves r \<Rightarrow>
          (case parse (cleanJson (or_else (response_text r) dflt)) of
             None \<Rightarrow> Inl SyntaxError
           | Some v \<Rightarrow> Inr v))"

text \<open>A helper returns a promise: \<open>Inr\<close> when it resolves, \<open>Inl\<close> when it rejects.\<close>

definition parseResumeDocument ::
  "(string \<Rightarrow> json option) \<Rightarrow> client option \<Rightarrow> (request \<Rightarrow> api_result) \<Rightarrow> string \<Rightarrow> string
     \<Rightarrow> js_error + json" where
  "parseResumeDocument parse ai generateContent base64Data mimeType =
     (case ai of
        None \<Rightarrow> Inr MOCK_RESUME
      | Some c \<Rightarrow>
          (case request_json parse generateContent parseResume_schema ''{}'' of
             Inr v \<Rightarrow> Inr v
           | Inl err \<Rightarrow> Inr (handleOfflineError err MOCK_RESUME ''parseResumeDocument'')))"

definition generateLearningPath ::
  "(string \<Rightarrow> json option) \<Rightarrow> client option \<Rightarrow> (request \<Rightarrow> api_result) \<Rightarrow> string \<Rightarrow> string list
     \<Rightarrow> js_error + json" where
  "generateLearningPath parse ai generateContent role currentSkills =
     (case ai of
        None \<Rightarrow> Inr (JArr MOCK_RESOURCES)
      | Some c \<Rightarrow>
          (case request_json parse generateContent learningPath_schema ''[]'' of
             Inr v \<Rightarrow> Inr v
           | Inl err \<Rightarrow> Inr (handleOfflineError err (JArr MOCK_RESOURCES) ''generateLearningPath'')))"

datatype difficulty = Easy | Medium | Hard

definition generateQuiz ::
  "(string \<Rightarrow> json option) \<Rightarrow> client option \<Rightarrow> (request \<Rightarrow> api_result) \<Rightarrow> string \<Rightarrow> difficulty
     \<Rightarrow> string \<Rightarrow> js_error + json" where
  "generateQuiz parse ai generateContent role difficulty topic =
     (case ai of
        None \<Rightarrow> Inr (JArr MOCK_QUIZ)
      | Some c \<Rightarrow>
          (case request_json parse generateContent quiz_schema ''[]'' of
             Inr v \<Rightarrow> Inr v
           | Inl err \<Rightarrow> Inr (handleOfflineError err (JArr MOCK_QUIZ) ''generateQuiz'')))"

definition generateAptitudePrep ::
  "(string \<Rightarrow> json option) \<Rightarrow> client option \<Rightarrow> (request \<Rightarrow> api_result) \<Rightarrow> js_error + json" where
  "generateAptitudePrep parse ai generateContent =
     (case ai of
        None \<Rightarrow> Inr (JArr MOCK_RESOURCES)
      | Some c \<Rightarrow>
          (case request_json parse generateContent aptitudePrep_schema ''[]'' of
             Inr v \<Rightarrow> Inr v
           | Inl err \<Rightarrow> Inr (handleOfflineError err (JArr MOCK_RESOURCES) ''generateAptitudePrep'')))"

definition generateFullMockTest ::
  "(string \<Rightarrow> json option) \<Rightarrow> client option \<Rightarrow> (request \<Rightarrow> api_result) \<Rightarrow> string
     \<Rightarrow> js_error + json" where
  "generateFullMockTest parse ai generateContent role =
     (case ai of
        None \<Rightarrow> Inr (JArr (MOCK_QUIZ @ MOCK_QUIZ))
      | Some c \<Rightarrow>
          (case request_json parse generateContent fullMockTest_schema ''[]'' of
             Inr v \<Rightarrow> Inr v
           | Inl err \<Rightarrow>
               Inr (handleOfflineError err (JArr (MOCK_QUIZ @ MOCK_QUIZ)) ''generateFullMockTest'')))"

subsection \<open>searchJobs\<close>

text \<open>\<open>encodeURIComponent\<close> on 8-bit code units: the unreserved characters stay, every
  other one becomes the percent-escaped bytes of its UTF-8 form.\<close>

definition uri_unreserved :: "char \<Rightarrow> bool" where
  "uri_unreserved c =
     (let n = (of_char c :: nat)
      in (65 \<le> n \<and> n \<le> 90) \<or> (97 \<le> n \<and> n \<le> 122) \<or> (48 \<le> n \<and> n \<le> 57) \<or>
         c \<in> set ''-_.!~*'()'')"

definition percent :: "nat \<Rightarrow> string" where
  "percent b = [CHR ''%'', ''0123456789ABCDEF'' ! (b div 16), ''0123456789ABCDEF'' ! (b mod 16)]"

definition encode_unit :: "char \<Rightarrow> string" where
  "encode_unit c =
     (let n = (of_char c :: nat)
      in if uri_unreserved c then [c]
         else if n < 128 then percent n
         else percent (192 + n div 64) @ percent (128 + n mod 64))"

definition encodeURIComponent :: "string \<Rightarrow> string" where
  "encodeURIComponent t = concat (map encode_unit t)"

text \<open>\<open>response.candidates?.[0]?.groundingMetadata?.groundingChunks || []\<close>; the outer
  option of \<open>groundingChunks\<close> is the metadata object, the inner one its chunk list.\<close>

definition chunks_of :: "response \<Rightarrow> grounding_chunk list" where
  "chunks_of r =
     (case candidates r of
        Some (c # cs) \<Rightarrow>
          (case groundingChunks c of
             Some (Some chunks) \<Rightarrow> chunks
           | _ \<Rightarrow> [])
      | _ \<Rightarrow> [])"

definition chunk_uri :: "grounding_chunk \<Rightarrow> string option" where
  "chunk_uri c = (case chunk_web c of None \<Rightarrow> None | Some w \<Rightarrow> web_uri w)"

definition chunk_title :: "grounding_chunk \<Rightarrow> string option" where
  "chunk_title c = (case chunk_web c of None \<Rightarrow> None | Some w \<Rightarrow> web_title w)"

definition searchJobs ::
  "client option \<Rightarrow> (request \<Rightarrow> api_result) \<Rightarrow> string \<Rightarrow> string \<Rightarrow> js_error + JobListing list" where
  "searchJobs ai generateContent role loc =
     (case ai of
        None \<Rightarrow> Inr MOCK_JOBS
      | Some c \<Rightarrow>
          (case generateContent \<lparr> responseSchema = None, googleSearch = True \<rparr> of
             Rejects \<Rightarrow> Inr (handleOfflineError RequestFailed MOCK_JOBS ''searchJobs'')
           | Resolves r \<Rightarrow>
               (let chunks = chunks_of r;
                    listings = take 6
                      (map (\<lambda>c. \<lparr> title = or_else (chunk_title c) ''Job Opening'',
                                   company = ''Source: Web'',
                                   location = loc,
                                   url = or_else (chunk_uri c) ''#'' \<rparr>)
                         (filter (\<lambda>c. truthy (chunk_uri c) \<and> truthy (chunk_title c)) chunks))
                in if length listings = 0
                   then Inr [\<lparr> title = role @ '' - Search Results'', company = ''Google Search'',
                                location = loc,
                                url = ''https://www.google.com/search?q='' @
                                      encodeURIComponent (role @ '' jobs'') \<rparr>]
                   else Inr listings)))"


subsection \<open>A reference JSON.parse\<close>

text \<open>
  Modelled from the platform: \<open>JSON.parse\<close> is not code of this repository. The reference
  below reads the JSON grammar restricted to integer number literals and to strings
  without escape sequences, and is used only on concrete texts inside that fragment; the
  general statements about the helpers hold for any \<open>parse\<close> function. \<open>None\<close> stands for
  the \<open>SyntaxError\<close> of the platform. The recursion is bounded by the number of characters.
\<close>

definition json_ws :: "char \<Rightarrow> bool" where
  "json_ws c = (of_char c \<in> {9, 10, 13, 32 :: nat})"

definition is_digit :: "char \<Rightarrow> bool" where
  "is_digit c = (48 \<le> (of_char c :: nat) \<and> (of_char c :: nat) \<le> 57)"

definition digits_value :: "string \<Rightarrow> int" where
  "digits_value ds = foldl (\<lambda>acc c. 10 * acc + (int (of_char c) - 48)) 0 ds"

text \<open>A number literal: an optional minus sign, then \<open>0\<close> or digits that do not start
  with \<open>0\<close>; a fraction or an exponent after it is outside the fragment.\<close>

definition parse_number :: "string \<Rightarrow> (json \<times> string) option" where
  "parse_number cs =
     (let neg = (take 1 cs = ''-'');
          body = (if neg then drop 1 cs else cs);
          ds = takeWhile is_digit body;
          rest = dropWhile is_digit body
      in if ds = [] \<or> (1 < length ds \<and> hd ds = CHR ''0'') then None
         else if rest \<noteq> [] \<and> hd rest \<in> set ''.eE'' then None
         else Some (JNum (if neg then - digits_value ds else digits_value ds), rest))"

text \<open>The characters of a string literal after its opening quote, up to the closing one.\<close>

fun parse_string_body :: "string \<Rightarrow> (string \<times> string) option" where
  "parse_string_body [] = None"
| "parse_string_body (c # cs) =
     (if c = CHR 0x22 then Some ([], cs)
      else if c = CHR 0x5C \<or> (of_char c :: nat) < 32 then None
      else (case parse_string_body cs of
              None \<Rightarrow> None
            | Some (t, rest) \<Rightarrow> Some (c # t, rest)))"

definition parse_literal :: "string \<Rightarrow> (json \<times> string) option" where
  "parse_literal cs =
     (if take 4 cs = ''true'' then Some (JBool True, drop 4 cs)
      else if take 5 cs = ''false'' then Some (JBool False, drop 5 cs)
      else if take 4 cs = ''null'' then Some (JNull, drop 4 cs)
      else parse_number cs)"

fun parse_value :: "nat \<Rightarrow> string \<Rightarrow> (json \<times> string) option"
  and parse_elements :: "nat \<Rightarrow> string \<Rightarrow> (json list \<times> string) option"
  and parse_members :: "nat \<Rightarrow> string \<Rightarrow> ((string \<times> json) list \<times> string) option" where
  "parse_value 0 cs = None"
| "parse_value (Suc n) cs =
     (case dropWhile json_ws cs of
        [] \<Rightarrow> None
      | c # rest \<Rightarrow>
          if c = CHR ''{'' then
            (case dropWhile json_ws rest of
               [] \<Rightarrow> None
             | d # rest' \<Rightarrow>
                 if d = CHR ''}'' then Some (JObj [], rest')
                 else (case parse_members n rest of
                         None \<Rightarrow> None
                       | Some (ms, r) \<Rightarrow> Some (JObj ms, r)))
          else if c = CHR ''['' then
            (case dropWhile json_ws rest of
               [] \<Rightarrow> None
             | d # rest' \<Rightarrow>
                 if d = CHR '']'' then Some (JArr [], rest')
                 else (case parse_elements n rest of
                         None \<Rightarrow> None
                       | Some (vs, r) \<Rightarrow> Some (JArr vs, r)))
          else if c = CHR 0x22 then
            (case parse_string_body rest of
               None \<Rightarrow> None
             | Some (t, r) \<Rightarrow> Some (JStr t, r))
          else parse_literal (c # rest))"
| "parse_elements 0 cs = None"
| "parse_elements (Suc n) cs =
     (case parse_value n cs of
        None \<Rightarrow> None
      | Some (v, r) \<Rightarrow>
          (case dropWhile json_ws r of
             [] \<Rightarrow> None
           | d # r' \<Rightarrow>
               if d = CHR '']'' then Some ([v], r')
               else if d = CHR '','' then
                 (case parse_elements n r' of
                    None \<Rightarrow> None
                  | Some (vs, r'') \<Rightarrow> Some (v # vs, r''))
               else None))"
| "parse_members 0 cs = None"
| "parse_members (Suc n) cs =
     (case dropWhile json_ws cs of
        [] \<Rightarrow> None
      | q # r0 \<Rightarrow>
          if q \<noteq> CHR 0x22 then None
          else (case parse_string_body r0 of
                  None \<Rightarrow> None
                | Some (k, r1) \<Rightarrow>
                    (case dropWhile json_ws r1 of
                       [] \<Rightarrow> None
                     | colon # r2 \<Rightarrow>
                         if colon \<noteq> CHR '':'' then None
                         else (case parse_value n r2 of
                                 None \<Rightarrow> None
                               | Some (v, r3) \<Rightarrow>
                                   (case dropWhile json_ws r3 of
                                      [] \<Rightarrow> None
                                    | d # r4 \<Rightarrow>
                                        if d = CHR ''}'' then Some ([(k, v)], r4)
                                        else if d = CHR '','' then
                                          (case parse_members n r4 of
                                             None \<Rightarrow> None
                                           | Some (ms, r5) \<Rightarrow> Some ((k, v) # ms, r5))
                                        else None)))))"

definition JSON_parse :: "string \<Rightarrow> json option" where
  "JSON_parse t =
     (case parse_value (Suc (length t)) t of
        None \<Rightarrow> None
      | Some (v, rest) \<Rightarrow> if dropWhile json_ws rest = [] then Some v else None)"


section \<open>Notions used to state the properties\<close>

text \<open>A browser with no credential anywhere, where audio works and the camera is refused.\<close>

definition demo_browser :: browser where
  "demo_browser = \<lparr> localStorage = Stored None, process = NoProcess,
      audioContextClass = Some Running, getUserMedia = None \<rparr>"

text \<open>A browser with a persisted key and an environment key, where capture is granted.\<close>

definition keyed_browser :: browser where
  "keyed_browser = \<lparr> localStorage = Stored (Some ''local''), process = EnvKey (Some ''env''),
      audioContextClass = Some Running, getUserMedia = Some [True, True] \<rparr>"

text \<open>A browser whose storage cannot be read (blocked, or absent as in a build process)
  while the environment holds a key.\<close>

definition blocked_storage_browser :: browser where
  "blocked_storage_browser = \<lparr> localStorage = StorageThrows, process = EnvKey (Some ''env''),
      audioContextClass = Some Running, getUserMedia = Some [True, True] \<rparr>"

text \<open>The key the environment offers, if any.\<close>

definition env_key :: "process_env \<Rightarrow> string option" where
  "env_key env = (case env of EnvKey k \<Rightarrow> (if truthy k then k else None) | _ \<Rightarrow> None)"










text \<open>The session \<open>disconnect\<close> leaves behind.\<close>

definition torn_down :: "session \<Rightarrow> session" where
  "torn_down s =
     (let s1 = s\<lparr> inputSourceRef := map_option (\<lambda>c. False) (inputSourceRef s),
                   processorRef := map_option (\<lambda>c. False) (processorRef s),
                   audioContextRef := map_option (\<lambda>c. Closed) (audioContextRef s) \<rparr>;
          s2 = (if truthy_id (videoIntervalRef s1)
                then clearInterval (the (videoIntervalRef s1)) s1 else s1);
          s3 = (if truthy_id (demoIntervalRef s2)
                then clearInterval (the (demoIntervalRef s2)) s2 else s2)
      in s3\<lparr> videoRef := map_option (\<lambda>v. None) (videoRef s3),
             isConnected := False, isSpeaking := False, nextStartTimeRef := 0 \<rparr>)"

text \<open>In the spec's words: the citations that have both a title and a link, as
  (title, link) pairs in the order they were returned, and the listing made from one.\<close>

fun cited :: "grounding_chunk list \<Rightarrow> (string \<times> string) list" where
  "cited [] = []"
| "cited (c # cs) =
     (case chunk_web c of
        None \<Rightarrow> cited cs
      | Some w \<Rightarrow>
          (case (web_title w, web_uri w) of
             (Some t, Some u) \<Rightarrow> (if t \<noteq> [] \<and> u \<noteq> [] then (t, u) # cited cs else cited cs)
           | _ \<Rightarrow> cited cs))"

definition citation_listing :: "string \<Rightarrow> string \<times> string \<Rightarrow> JobListing" where
  "citation_listing loc p =
     \<lparr> title = fst p, company = ''Source: Web'', location = loc, url = snd p \<rparr>"

definition search_results_listing :: "string \<Rightarrow> string \<Rightarrow> JobListing" where
  "search_results_listing role loc =
     \<lparr> title = role @ '' - Search Results'', company = ''Google Search'', location = loc,
       url = ''https://www.google.com/search?q='' @ encodeURIComponent (role @ '' jobs'') \<rparr>"

text \<open>Request outcomes and clients used in examples.\<close>

definition a_client :: client where
  "a_client = GoogleGenAI ''key''"

definition answers :: "string \<Rightarrow> request \<Rightarrow> api_result" where
  "answers t req = Resolves \<lparr> response_text = Some t, candidates = None \<rparr>"

definition grounded :: "grounding_chunk list \<Rightarrow> request \<Rightarrow> api_result" where
  "grounded chunks req =
     Resolves \<lparr> response_text = None,
                candidates = Some [\<lparr> groundingChunks = Some (Some chunks) \<rparr>] \<rparr>"

definition web_chunk :: "string \<Rightarrow> string \<Rightarrow> grounding_chunk" where
  "web_chunk t u = \<lparr> chunk_web = Some \<lparr> web_uri = Some u, web_title = Some t \<rparr> \<rparr>"

text \<open>A failure in the request and parse path of a JSON helper that declares \<open>sch\<close> and
  falls back to the text \<open>dflt\<close>: the request is rejected, or the cleaned text does not
  parse. \<open>parsed\<close> is what the path yields when neither happens.\<close>

definition the_request :: "schema \<Rightarrow> request" where
  "the_request sch = \<lparr> responseSchema = Some sch, googleSearch = False \<rparr>"

definition request_rejected :: "(request \<Rightarrow> api_result) \<Rightarrow> request \<Rightarrow> bool" where
  "request_rejected generateContent req =
     (case generateContent req of Rejects \<Rightarrow> True | Resolves r \<Rightarrow> False)"

definition parsed ::
  "(string \<Rightarrow> json option) \<Rightarrow> (request \<Rightarrow> api_result) \<Rightarrow> schema \<Rightarrow> string \<Rightarrow> json option" where
  "parsed parse generateContent sch dflt =
     (case generateContent (the_request sch) of
        Rejects \<Rightarrow> None
      | Resolves r \<Rightarrow> parse (cleanJson (or_else (response_text r) dflt)))"

definition path_fails ::
  "(string \<Rightarrow> json option) \<Rightarrow> (request \<Rightarrow> api_result) \<Rightarrow> schema \<Rightarrow> string \<Rightarrow> bool" where
  "path_fails parse generateContent sch dflt = (parsed parse generateContent sch dflt = None)"

definition search_request :: request where
  "search_request = \<lparr> responseSchema = None, googleSearch = True \<rparr>"

definition rejecting :: "request \<Rightarrow> api_result" where
  "rejecting req = Rejects"

definition eight_chunks :: "grounding_chunk list" where
  "eight_chunks =
     [web_chunk ''Job A'' ''https://a.example'',
      \<lparr> chunk_web = None \<rparr>,
      web_chunk ''Job B'' ''https://b.example'',
      \<lparr> chunk_web = Some \<lparr> web_uri = Some ''https://untitled.example'', web_title = None \<rparr> \<rparr>,
      web_chunk ''Job C'' ''https://c.example'',
      web_chunk '''' ''https://empty-title.example'',
      web_chunk ''Job D'' ''https://d.example'',
      web_chunk ''Job E'' ''https://e.example'',
      web_chunk ''Job F'' ''https://f.example'',
      web_chunk ''Job G'' ''https://g.example'']"


section \<open>Properties of the session controller\<close>

subsection \<open>Audio scheduling\<close>

lemma transcription_frame:
  "started (onmessage_transcription msg s) = started s"
  "nextStartTimeRef (onmessage_transcription msg s) = nextStartTimeRef s"
  "audioContextRef (onmessage_transcription msg s) = audioContextRef s"
  by (simp_all add: onmessage_transcription_def addLog_def Let_def split: option.splits)

lemma decodeAudioData_ok:
  "even n \<Longrightarrow> 0 < n \<Longrightarrow> decodeAudioData n 24000 (Suc 0) = Inr \<lparr> frames = n div 2, sampleRate = 24000 \<rparr>"
  by (auto simp: decodeAudioData_def Let_def)

lemma decodeAudioData_duration:
  "decodeAudioData n 24000 1 = Inr b \<Longrightarrow> 0 < duration b"
  by (auto simp: decodeAudioData_def Let_def duration_def split: if_splits)

lemma onmessage_clip:
  assumes "decodable msg" "audioContextRef s \<noteq> None"
  shows "fst (onmessage now msg s) = None"
    and "started (snd (onmessage now msg s)) = started s @ [(max now (nextStartTimeRef s), clip_of msg)]"
    and "nextStartTimeRef (snd (onmessage now msg s)) = max now (nextStartTimeRef s) + clip_of msg"
  using assms
  by (auto simp: onmessage_def onmessage_audio_def decodable_def clip_of_def clip_duration_def
      transcription_frame decode_def decodeAudioData_ok duration_def Let_def
      split: option.splits audio_data.splits)

lemma onmessage_audioContextRef:
  "audioContextRef (snd (onmessage now msg s)) = audioContextRef s"
  by (auto simp: onmessage_def onmessage_audio_def transcription_frame Let_def
      split: option.splits sum.splits)

lemma gapless_snoc:
  "gapless (cs @ [(t, d)]) = (gapless cs \<and> (cs = [] \<or> fst (last cs) + snd (last cs) \<le> t))"
  by (induction cs rule: gapless.induct) auto

lemma schedule_snoc:
  assumes "gapless cs" "sorted (map fst cs)" "list_all (\<lambda>(a, b). a \<le> c \<and> a + b \<le> c) cs"
    and "0 \<le> d" "c \<le> t'"
  shows "gapless (cs @ [(t', d)])" "sorted (map fst (cs @ [(t', d)]))"
    "list_all (\<lambda>(a, b). a \<le> t' + d \<and> a + b \<le> t' + d) (cs @ [(t', d)])"
proof -
  have all: "\<And>a b. (a, b) \<in> set cs \<Longrightarrow> a \<le> c \<and> a + b \<le> c"
    using assms(3) by (auto simp: list_all_iff)
  show "gapless (cs @ [(t', d)])"
  proof (cases "cs = []")
    case True then show ?thesis by simp
  next
    case False
    then have "last cs \<in> set cs" by simp
    then have "fst (last cs) + snd (last cs) \<le> c" using all [of "fst (last cs)" "snd (last cs)"] by simp
    then show ?thesis using assms(1,5) by (simp add: gapless_snoc)
  qed
  show "sorted (map fst (cs @ [(t', d)]))"
    using assms(2,5) all by (fastforce simp: sorted_append)
  show "list_all (\<lambda>(a, b). a \<le> t' + d \<and> a + b \<le> t' + d) (cs @ [(t', d)])"
    using assms(4,5) all by (fastforce simp: list_all_iff)
qed

lemma onmessage_audio_sched_inv:
  assumes "sched_inv s"
  shows "sched_inv (snd (onmessage_audio now msg s))"
proof (cases "\<exists>n b c. inlineData msg = Some (PcmBytes n) \<and> decodeAudioData n 24000 1 = Inr b \<and> audioContextRef s = Some c")
  case True
  then obtain n b c where h: "inlineData msg = Some (PcmBytes n)" "decodeAudioData n 24000 1 = Inr b"
    "audioContextRef s = Some c" by blast
  have d: "0 \<le> duration b" using decodeAudioData_duration [OF h(2)] by simp
  have eq: "snd (onmessage_audio now msg s) =
      s\<lparr> isSpeaking := True, started := started s @ [(max now (nextStartTimeRef s), duration b)],
         nextStartTimeRef := max now (nextStartTimeRef s) + duration b \<rparr>"
    using h by (simp add: onmessage_audio_def decode_def Let_def)
  show ?thesis
    unfolding eq sched_inv_def
    using schedule_snoc [of "started s" "nextStartTimeRef s" "duration b" "max now (nextStartTimeRef s)"] assms d
    by (simp add: sched_inv_def)
next
  case False
  then have "snd (onmessage_audio now msg s) = s \<or> snd (onmessage_audio now msg s) = s\<lparr> isSpeaking := True \<rparr>"
    by (auto simp: onmessage_audio_def decode_def Let_def split: option.splits audio_data.splits sum.splits)
  then show ?thesis using assms by (auto simp: sched_inv_def)
qed

lemma onmessage_sched_inv:
  assumes "sched_inv s"
  shows "sched_inv (snd (onmessage now msg s))"
proof -
  have "sched_inv (onmessage_transcription msg s)" using assms by (simp add: sched_inv_def transcription_frame)
  then show ?thesis unfolding onmessage_def by (rule onmessage_audio_sched_inv)
qed

lemma deliver_sched_inv: "sched_inv s \<Longrightarrow> sched_inv (deliver ms s)"
  by (induction ms s rule: deliver.induct) (simp_all add: onmessage_sched_inv)

lemma deliver_append: "deliver (xs @ ys) s = deliver ys (deliver xs s)"
  by (induction xs s rule: deliver.induct) simp_all

lemma deliver_audioContextRef: "audioContextRef (deliver ms s) = audioContextRef s"
  by (induction ms s rule: deliver.induct) (simp_all add: onmessage_audioContextRef)


lemma deliver_clips_length:
  "list_all (\<lambda>(now, msg). decodable msg) ms \<Longrightarrow> audioContextRef s \<noteq> None \<Longrightarrow>
   map snd (started (deliver ms s)) = map snd (started s) @ map (\<lambda>(now, msg). clip_of msg) ms"
  by (induction ms s rule: deliver.induct) (simp_all add: onmessage_clip onmessage_audioContextRef)

lemma deliver_step:
  assumes "i < length ms" "list_all (\<lambda>(now, msg). decodable msg) ms" "audioContextRef s \<noteq> None"
  shows "started (deliver (take (Suc i) ms) s) =
           started (deliver (take i ms) s) @
             [(max (fst (ms ! i)) (nextStartTimeRef (deliver (take i ms) s)), clip_of (snd (ms ! i)))]"
    and "nextStartTimeRef (deliver (take (Suc i) ms) s) =
           max (fst (ms ! i)) (nextStartTimeRef (deliver (take i ms) s)) + clip_of (snd (ms ! i))"
proof -
  obtain now msg where nm: "ms ! i = (now, msg)" by (cases "ms ! i")
  have dec: "decodable msg"
    using assms(1,2) nm by (auto simp: list_all_length split: prod.splits)
  have ctx: "audioContextRef (deliver (take i ms) s) \<noteq> None"
    using assms(3) by (simp add: deliver_audioContextRef)
  have split: "deliver (take (Suc i) ms) s = snd (onmessage now msg (deliver (take i ms) s))"
    using assms(1) nm by (simp add: take_Suc_conv_app_nth deliver_append)
  show "started (deliver (take (Suc i) ms) s) =
           started (deliver (take i ms) s) @
             [(max (fst (ms ! i)) (nextStartTimeRef (deliver (take i ms) s)), clip_of (snd (ms ! i)))]"
    unfolding split nm using onmessage_clip(2) [OF dec ctx] by simp
  show "nextStartTimeRef (deliver (take (Suc i) ms) s) =
           max (fst (ms ! i)) (nextStartTimeRef (deliver (take i ms) s)) + clip_of (snd (ms ! i))"
    unfolding split nm using onmessage_clip(3) [OF dec ctx] by simp
qed

text \<open>
  Claim C1. Clips that decode are handled in arrival order, message \<open>i\<close> at playback-clock
  time \<open>fst (ms ! i)\<close>. Each clip is started at the later of that clock time and the
  cursor, and the cursor then moves to that start time plus the clip's duration. One clip
  is started per message, with the durations in arrival order; the start times never
  decrease; and every clip starts at or after the previous clip's start plus the previous
  clip's duration, so no two clips overlap.
\<close>

theorem audio_schedule_invariant:
  assumes "audioContextRef s \<noteq> None" and "started s = []"
    and "list_all (\<lambda>(now, msg). decodable msg) ms"
  shows "(\<forall>i < length ms.
            started (deliver (take (Suc i) ms) s) =
              started (deliver (take i ms) s) @
                [(max (fst (ms ! i)) (nextStartTimeRef (deliver (take i ms) s)), clip_of (snd (ms ! i)))] \<and>
            nextStartTimeRef (deliver (take (Suc i) ms) s) =
              max (fst (ms ! i)) (nextStartTimeRef (deliver (take i ms) s)) + clip_of (snd (ms ! i))) \<and>
         map snd (started (deliver ms s)) = map (\<lambda>(now, msg). clip_of msg) ms \<and>
         sorted (map fst (started (deliver ms s))) \<and>
         gapless (started (deliver ms s))"
proof -
  have "sched_inv s" using assms(2) by (simp add: sched_inv_def)
  then have inv: "sched_inv (deliver ms s)" by (rule deliver_sched_inv)
  have len: "map snd (started (deliver ms s)) = map (\<lambda>(now, msg). clip_of msg) ms"
    using deliver_clips_length [OF assms(3,1)] assms(2) by simp
  show ?thesis
    using deliver_step [OF _ assms(3,1)] len inv by (simp add: sched_inv_def)
qed

theorem audio_schedule_invariant_witness:
  "audioContextRef open_session \<noteq> None \<and> started open_session = [] \<and>
   list_all (\<lambda>(now, msg). decodable msg)
     [(0, audio_message 48000), (1/2, audio_message 24000), (5, audio_message 2)] \<and>
   started (deliver [(0, audio_message 48000), (1/2, audio_message 24000), (5, audio_message 2)] open_session)
     = [(0, 1), (1, 1/2), (5, 1/24000)] \<and>
   sorted (map fst (started (deliver [(0, audio_message 48000), (1/2, audio_message 24000),
      (5, audio_message 2)] open_session))) \<and>
   gapless (started (deliver [(0, audio_message 48000), (1/2, audio_message 24000),
      (5, audio_message 2)] open_session))"
proof -
  have h1: "audioContextRef open_session \<noteq> None" by (simp add: open_session_def)
  have h2: "started open_session = []" by (simp add: open_session_def initial_session_def)
  have h3: "list_all (\<lambda>(now, msg). decodable msg)
     [(0, audio_message 48000), (1/2, audio_message 24000), (5, audio_message 2)]"
    by (simp add: decodable_def audio_message_def)
  have run: "started (deliver [(0, audio_message 48000), (1/2, audio_message 24000), (5, audio_message 2)] open_session)
     = [(0, 1), (1, 1/2), (5, 1/24000)]"
    by (simp add: open_session_def initial_session_def audio_message_def onmessage_def
        onmessage_transcription_def onmessage_audio_def decode_def decodeAudioData_def duration_def Let_def)
  show ?thesis
    using audio_schedule_invariant [OF h1 h2 h3] h1 h2 h3 run by simp
qed

subsection \<open>Transcript assembly\<close>

text \<open>
  Claim C2. From empty transcript buffers, an input delta "Hello", an output delta
  "Hi there" and a turn-complete message append exactly the two lines "You: Hello" and
  "AI: Hi there", in that order, and leave both buffers empty. In any session a
  turn-complete message appends a line only for a buffer that is not empty, and empties
  both buffers.
\<close>

theorem transcript_flush:
  "(let s0 = s\<lparr> currentInputTranscription := [], currentOutputTranscription := [] \<rparr>;
        s3 = deliver [(t1, input_delta ''Hello''), (t2, output_delta ''Hi there''), (t3, turn_complete)] s0
    in logs s3 = logs s @ [''You: Hello'', ''AI: Hi there''] \<and>
       currentInputTranscription s3 = [] \<and> currentOutputTranscription s3 = []) \<and>
   logs (snd (onmessage t turn_complete s)) =
     logs s @ (if currentInputTranscription s = [] then [] else [''You: '' @ currentInputTranscription s])
            @ (if currentOutputTranscription s = [] then [] else [''AI: '' @ currentOutputTranscription s]) \<and>
   currentInputTranscription (snd (onmessage t turn_complete s)) = [] \<and>
   currentOutputTranscription (snd (onmessage t turn_complete s)) = []"
  by (simp add: input_delta_def output_delta_def turn_complete_def onmessage_def
      onmessage_transcription_def onmessage_audio_def addLog_def js_string_def Let_def)

subsection \<open>Teardown\<close>

lemma node_disconnect_guarded:
  "(if r \<noteq> None then node_disconnect r else Inr r) = Inr (map_option (\<lambda>c. False) r)"
  by (cases r) (simp_all add: node_disconnect_def)

lemma context_close_guarded:
  "(if r \<noteq> None \<and> r \<noteq> Some Closed then context_close r else Inr r) = Inr (map_option (\<lambda>c. Closed) r)"
  by (cases r rule: option.exhaust; cases "the r") (simp_all add: context_close_def)

lemma stop_tracks_total:
  "stop_tracks s = Inr (s\<lparr> videoRef := map_option (\<lambda>v. None) (videoRef s) \<rparr>)"
proof (cases "videoRef s")
  case None
  then show ?thesis by (simp add: stop_tracks_def)
next
  case (Some v)
  show ?thesis
  proof (cases v)
    case None
    have "s\<lparr> videoRef := Some None \<rparr> = s" using Some None by simp
    then show ?thesis using Some None by (simp add: stop_tracks_def)
  next
    case (Some obj)
    then show ?thesis using \<open>videoRef s = Some v\<close>
      by (cases obj) (simp_all add: stop_tracks_def and_then_def getTracks_def has_getTracks_def)
  qed
qed

lemma disconnect_total: "disconnect s = Inr (torn_down s)"
  unfolding disconnect_def node_disconnect_guarded context_close_guarded
  by (simp add: and_then_def stop_tracks_total torn_down_def Let_def)

lemma torn_down_idem: "torn_down (torn_down s) = torn_down s"
  by (simp add: torn_down_def Let_def clearInterval_def option.map_comp comp_def conj_ac)


text \<open>
  Claim C6. From any session whatever (never connected, partly initialised, or already
  torn down) \<open>disconnect\<close> returns without raising; a second call right after it returns
  without raising too and changes nothing; and afterwards the connected flag is false, the
  speaking flag is false and the playback cursor is 0.
\<close>

theorem disconnect_idempotent:
  "\<exists>s1. disconnect s = Inr s1 \<and> disconnect s1 = Inr s1 \<and>
     \<not> isConnected s1 \<and> \<not> isSpeaking s1 \<and> nextStartTimeRef s1 = 0"
proof -
  have "disconnect (torn_down s) = Inr (torn_down s)"
    by (simp add: disconnect_total torn_down_idem)
  moreover have "\<not> isConnected (torn_down s) \<and> \<not> isSpeaking (torn_down s) \<and>
      nextStartTimeRef (torn_down s) = 0"
    by (simp add: torn_down_def Let_def)
  ultimately show ?thesis using disconnect_total by blast
qed


subsection \<open>Demo mode\<close>
























lemma connect_demo:
  assumes "\<not> truthy (connect_apiKey (localStorage b) (process b))" "audioContextClass b = Some st"
  shows "connect role b s =
     s\<lparr> error := None, audioContextRef := Some st,
        videoRef := (case getUserMedia b of Some tracks \<Rightarrow>
                       (case videoRef s of Some v \<Rightarrow> Some (Some (Stream tracks)) | None \<Rightarrow> None)
                     | None \<Rightarrow> videoRef s),
        isConnected := True,
        logs := logs s @ [''[DEMO MODE] No API Key detected. Starting simulated interview session.'',
                          ''AI: Hello! Welcome to your interview simulation.''],
        timers := timers s @ [\<lparr> timer_id = fresh_id s, due = clock s + 6000,
                                   period = Some 6000, action = DemoTick 0 role \<rparr>],
        lastTimerId := fresh_id s,
        demoIntervalRef := Some (fresh_id s) \<rparr>"
proof -
  have f: "\<And>x y z w v. fresh_id (s\<lparr> error := x, audioContextRef := y, videoRef := z,
      isConnected := w, logs := v \<rparr>) = fresh_id s"
    by (simp add: fresh_id_def)
  show ?thesis
    using assms
    by (cases "getUserMedia b"; cases "videoRef s")
       (simp_all add: connect_def connect_body_def Let_def addLog_def setInterval_def fresh_id_def)
qed














subsection \<open>Credential resolution\<close>

text \<open>
  With a storage that can be read and holds \<open>p\<close>, both resolutions follow one precedence: a
  persisted, non-empty key is the one \<open>connect\<close> resolves and the one \<open>initializeAI\<close>
  builds the client with, whatever the environment holds; without it, a non-empty
  environment key is used by both; with neither, \<open>connect\<close> resolves no key and
  \<open>initializeAI\<close> leaves no client active. In \<open>connect\<close> the resolved key opens the live
  session, and the lack of one starts demo mode.
\<close>

lemma credential_precedence:
  "(truthy p \<longrightarrow>
      connect_apiKey (Stored p) env = p \<and>
      initializeAI (Stored p) env ai = Some (GoogleGenAI (the p))) \<and>
   (\<not> truthy p \<and> env_key env = Some e \<longrightarrow>
      connect_apiKey (Stored p) env = Some e \<and>
      initializeAI (Stored p) env ai = Some (GoogleGenAI e)) \<and>
   (\<not> truthy p \<and> env_key env = None \<longrightarrow>
      \<not> truthy (connect_apiKey (Stored p) env) \<and>
      \<not> hasApiKey (initializeAI (Stored p) env None)) \<and>
   (truthy (connect_apiKey (localStorage b) (process b)) \<and>
    audioContextClass b \<noteq> None \<and> getUserMedia b \<noteq> None \<longrightarrow>
      liveClientKey (connect role b s) = connect_apiKey (localStorage b) (process b) \<and>
      timers (connect role b s) = timers s) \<and>
   (\<not> truthy (connect_apiKey (localStorage b) (process b)) \<and> audioContextClass b \<noteq> None \<longrightarrow>
      liveClientKey (connect role b s) = liveClientKey s \<and>
      isConnected (connect role b s) \<and>
      demoIntervalRef (connect role b s) = Some (fresh_id s))"
proof -
  have a: "truthy p \<Longrightarrow> connect_apiKey (Stored p) env = p \<and>
      initializeAI (Stored p) env ai = Some (GoogleGenAI (the p))"
    by (simp add: connect_apiKey_def initializeAI_def)
  have b: "\<not> truthy p \<Longrightarrow> env_key env = Some e \<Longrightarrow> connect_apiKey (Stored p) env = Some e \<and>
      initializeAI (Stored p) env ai = Some (GoogleGenAI e)"
    by (cases env) (auto simp: connect_apiKey_def initializeAI_def env_key_def split: if_splits)
  have c: "\<not> truthy p \<Longrightarrow> env_key env = None \<Longrightarrow> \<not> truthy (connect_apiKey (Stored p) env) \<and>
      \<not> hasApiKey (initializeAI (Stored p) env None)"
    by (cases env) (auto simp: connect_apiKey_def initializeAI_def env_key_def hasApiKey_def
        truthy_def split: if_splits option.splits)
  have d: "truthy (connect_apiKey (localStorage b) (process b)) \<Longrightarrow>
    audioContextClass b \<noteq> None \<Longrightarrow> getUserMedia b \<noteq> None \<Longrightarrow>
      liveClientKey (connect role b s) = connect_apiKey (localStorage b) (process b) \<and>
      timers (connect role b s) = timers s"
    by (cases "videoRef s") (auto simp: connect_def connect_body_def Let_def)
  have e: "\<not> truthy (connect_apiKey (localStorage b) (process b)) \<Longrightarrow> audioContextClass b \<noteq> None \<Longrightarrow>
      liveClientKey (connect role b s) = liveClientKey s \<and>
      isConnected (connect role b s) \<and>
      demoIntervalRef (connect role b s) = Some (fresh_id s)"
    using connect_demo [of b _ role s] by auto
  show ?thesis using a b c d e by blast
qed

lemma credential_precedence_example:
  "truthy (Some ''local'') \<and>
   connect_apiKey (Stored (Some ''local'')) (EnvKey (Some ''env'')) = Some ''local'' \<and>
   initializeAI (Stored (Some ''local'')) (EnvKey (Some ''env'')) None = Some (GoogleGenAI ''local'') \<and>
   \<not> truthy None \<and> env_key (EnvKey (Some ''env'')) = Some ''env'' \<and>
   connect_apiKey (Stored None) (EnvKey (Some ''env'')) = Some ''env'' \<and>
   initializeAI (Stored None) (EnvKey (Some ''env'')) None = Some (GoogleGenAI ''env'') \<and>
   env_key NoProcess = None \<and>
   \<not> truthy (connect_apiKey (Stored None) NoProcess) \<and>
   \<not> hasApiKey (initializeAI (Stored None) NoProcess None) \<and>
   truthy (connect_apiKey (localStorage keyed_browser) (process keyed_browser)) \<and>
   audioContextClass keyed_browser \<noteq> None \<and> getUserMedia keyed_browser \<noteq> None \<and>
   liveClientKey (connect ''Engineer'' keyed_browser (initial_session None)) = Some ''local'' \<and>
   \<not> truthy (connect_apiKey (localStorage demo_browser) (process demo_browser)) \<and>
   audioContextClass demo_browser \<noteq> None \<and>
   isConnected (connect ''Engineer'' demo_browser (initial_session None)) \<and>
   liveClientKey (connect ''Engineer'' demo_browser (initial_session None)) = None"
proof -
  have k: "connect_apiKey (localStorage keyed_browser) (process keyed_browser) = Some ''local''"
    by (simp add: keyed_browser_def connect_apiKey_def truthy_def)
  have d: "\<not> truthy (connect_apiKey (localStorage demo_browser) (process demo_browser))"
    by (simp add: demo_browser_def connect_apiKey_def truthy_def)
  have m: "audioContextClass keyed_browser \<noteq> None" "getUserMedia keyed_browser \<noteq> None"
    "audioContextClass demo_browser \<noteq> None"
    by (simp_all add: keyed_browser_def demo_browser_def)
  have t: "truthy (Some ''local'')" "\<not> truthy None" "env_key (EnvKey (Some ''env'')) = Some ''env''"
    "env_key NoProcess = None"
    by (simp_all add: truthy_def env_key_def)
  have i: "liveClientKey (initial_session None) = None" by (simp add: initial_session_def)
  show ?thesis
    using credential_precedence [of "Some ''local''" "EnvKey (Some ''env'')" None "''env''" keyed_browser
        "''Engineer''" "initial_session None"]
      credential_precedence [of None "EnvKey (Some ''env'')" None "''env''" demo_browser
        "''Engineer''" "initial_session None"]
      credential_precedence [of None NoProcess None "''env''" demo_browser
        "''Engineer''" "initial_session None"]
      k d m t i
    by simp
qed

text \<open>
  Claim C7. The precedence is claimed for both places. It fails in \<open>initializeAI\<close> when
  reading the storage raises while the environment holds a key: no persisted credential
  exists and an environment one does, \<open>connect\<close> resolves the environment key and opens the
  live session with it, but \<open>initializeAI\<close> ends with no client.
\<close>

theorem initializeAI_skips_environment:
  "connect_apiKey StorageThrows (EnvKey (Some ''env'')) = Some ''env'' \<and>
   liveClientKey (connect ''Engineer'' blocked_storage_browser (initial_session None)) = Some ''env'' \<and>
   initializeAI StorageThrows (EnvKey (Some ''env'')) None = None \<and>
   \<not> hasApiKey (initializeAI (localStorage blocked_storage_browser)
                   (process blocked_storage_browser) None)"
  by (simp add: connect_apiKey_def initializeAI_def truthy_def hasApiKey_def connect_def
      connect_body_def blocked_storage_browser_def initial_session_def Let_def)

section \<open>Properties of the generation helpers\<close>

subsection \<open>Offline mock data\<close>

lemmas mock_quiz_defs = MOCK_QUIZ_def MOCK_QUIZ_0_def MOCK_QUIZ_1_def MOCK_QUIZ_2_def
  MOCK_QUIZ_3_def MOCK_QUIZ_4_def

lemma MOCK_RESUME_conforms: "conforms parseResume_schema MOCK_RESUME"
  by (simp add: parseResume_schema_def MOCK_RESUME_def)

lemma MOCK_RESOURCES_conforms: "conforms learningPath_schema (JArr MOCK_RESOURCES)"
  by (simp add: learningPath_schema_def MOCK_RESOURCES_def)

lemma MOCK_RESOURCES_shape: "conforms (erase_enums aptitudePrep_schema) (JArr MOCK_RESOURCES)"
  by (simp add: aptitudePrep_schema_def MOCK_RESOURCES_def)

lemma MOCK_QUIZ_conforms: "conforms quiz_schema (JArr MOCK_QUIZ)"
  by (simp add: quiz_schema_def mock_quiz_defs)

lemma MOCK_QUIZ_twice_conforms: "conforms fullMockTest_schema (JArr (MOCK_QUIZ @ MOCK_QUIZ))"
  using MOCK_QUIZ_conforms by (simp add: fullMockTest_schema_def quiz_schema_def)

text \<open>
  Claim C4, as amended. With no active client every helper resolves to its fixed mock
  value, whatever its arguments, so two calls agree. The mock has the shape of the schema
  the helper declares, \<open>enum\<close> constraints included, for \<open>parseResumeDocument\<close>,
  \<open>generateLearningPath\<close>, \<open>generateQuiz\<close> and \<open>generateFullMockTest\<close>. For
  \<open>generateAptitudePrep\<close> it has the declared field names and types, and its resource types
  lie in the wider enumeration of \<open>generateLearningPath\<close>. \<open>searchJobs\<close> declares no
  response schema; its mock is the list of five fixed listings.
\<close>

theorem offline_mock_payloads:
  "parseResumeDocument parse None generateContent base64Data mimeType = Inr MOCK_RESUME \<and>
   conforms parseResume_schema MOCK_RESUME \<and>
   generateLearningPath parse None generateContent role currentSkills = Inr (JArr MOCK_RESOURCES) \<and>
   conforms learningPath_schema (JArr MOCK_RESOURCES) \<and>
   generateQuiz parse None generateContent role difficulty topic = Inr (JArr MOCK_QUIZ) \<and>
   conforms quiz_schema (JArr MOCK_QUIZ) \<and>
   generateAptitudePrep parse None generateContent = Inr (JArr MOCK_RESOURCES) \<and>
   conforms (erase_enums aptitudePrep_schema) (JArr MOCK_RESOURCES) \<and>
   generateFullMockTest parse None generateContent role = Inr (JArr (MOCK_QUIZ @ MOCK_QUIZ)) \<and>
   conforms fullMockTest_schema (JArr (MOCK_QUIZ @ MOCK_QUIZ)) \<and>
   searchJobs None generateContent role loc = Inr MOCK_JOBS \<and>
   length MOCK_JOBS = 5"
  using MOCK_RESUME_conforms MOCK_RESOURCES_conforms MOCK_RESOURCES_shape MOCK_QUIZ_conforms
    MOCK_QUIZ_twice_conforms
  by (simp add: parseResumeDocument_def generateLearningPath_def generateQuiz_def
      generateAptitudePrep_def generateFullMockTest_def searchJobs_def MOCK_JOBS_def)

text \<open>
  Claim C4 as stated fails for \<open>generateAptitudePrep\<close>: its mock holds a resource of type
  "Course", which the \<open>enum\<close> of its declared schema does not list.
\<close>

theorem aptitude_enum_counterexample:
  "generateAptitudePrep JSON_parse None rejecting = Inr (JArr MOCK_RESOURCES) \<and>
   \<not> conforms aptitudePrep_schema (JArr MOCK_RESOURCES)"
  by (simp add: generateAptitudePrep_def aptitudePrep_schema_def MOCK_RESOURCES_def)

lemma MOCK_QUIZ_distinct: "distinct MOCK_QUIZ"
  by (simp add: mock_quiz_defs)

lemma MOCK_QUIZ_length: "length MOCK_QUIZ = 5"
  by (simp add: MOCK_QUIZ_def)

lemma count_list_distinct:
  "distinct xs \<Longrightarrow> x \<in> set xs \<Longrightarrow> count_list xs x = 1"
  by (induction xs) auto

lemma count_list_twice:
  assumes "distinct xs"
  shows "map (count_list (xs @ xs)) xs = replicate (length xs) 2"
proof -
  have "map (count_list (xs @ xs)) xs = map (\<lambda>x. 2) xs"
    using assms by (intro map_cong) (simp_all add: count_list_distinct)
  then show ?thesis by (simp add: map_replicate_const)
qed

text \<open>
  Claim C10. With no active client \<open>generateFullMockTest\<close> resolves to the mock quiz followed
  by itself: ten questions, each of the five distinct mock questions exactly twice, and the
  first five are what \<open>generateQuiz\<close> resolves to with no active client.
\<close>

theorem full_mock_test_duplicates:
  "generateFullMockTest parse None generateContent role = Inr (JArr (MOCK_QUIZ @ MOCK_QUIZ)) \<and>
   length MOCK_QUIZ = 5 \<and> distinct MOCK_QUIZ \<and>
   length (MOCK_QUIZ @ MOCK_QUIZ) = 10 \<and>
   map (count_list (MOCK_QUIZ @ MOCK_QUIZ)) MOCK_QUIZ = [2, 2, 2, 2, 2] \<and>
   set (MOCK_QUIZ @ MOCK_QUIZ) = set MOCK_QUIZ \<and>
   Inr (JArr (take 5 (MOCK_QUIZ @ MOCK_QUIZ))) =
     generateQuiz parse' None generateContent' role' difficulty topic"
proof -
  have "map (count_list (MOCK_QUIZ @ MOCK_QUIZ)) MOCK_QUIZ = replicate (length MOCK_QUIZ) 2"
    using MOCK_QUIZ_distinct by (rule count_list_twice)
  then have c: "map (count_list (MOCK_QUIZ @ MOCK_QUIZ)) MOCK_QUIZ = [2, 2, 2, 2, 2]"
    by (simp add: MOCK_QUIZ_length eval_nat_numeral)
  show ?thesis
    using c MOCK_QUIZ_distinct
    by (simp add: generateFullMockTest_def generateQuiz_def MOCK_QUIZ_length)
qed

subsection \<open>Failures inside a helper\<close>

lemma request_json_cases:
  "request_json parse generateContent sch dflt =
     (case parsed parse generateContent sch dflt of
        None \<Rightarrow> (if request_rejected generateContent (the_request sch)
                  then Inl RequestFailed else Inl SyntaxError)
      | Some v \<Rightarrow> Inr v)"
  by (simp add: request_json_def parsed_def request_rejected_def the_request_def
      split: api_result.splits option.splits)

lemma json_helper_absorbs:
  assumes "h = (case request_json parse generateContent sch dflt of
                  Inr v \<Rightarrow> Inr v | Inl err \<Rightarrow> Inr (handleOfflineError err mock ctxt))"
  shows "(path_fails parse generateContent sch dflt \<longrightarrow> h = Inr mock) \<and>
         (\<forall>v. parsed parse generateContent sch dflt = Some v \<longrightarrow> h = Inr v) \<and>
         (\<exists>v. h = Inr v)"
  unfolding assms request_json_cases
  by (cases "parsed parse generateContent sch dflt")
     (simp_all add: path_fails_def handleOfflineError_def)

text \<open>
  Claim C5, as amended. With an active client, when the request is rejected or the cleaned
  response text does not parse as JSON, each helper resolves to its own mock value (the
  duplicated quiz for \<open>generateFullMockTest\<close>, the mock listings for \<open>searchJobs\<close> when its
  request is rejected). When the text parses, the helper resolves to the parsed value as
  it is: nothing compares it with the declared schema. In every case, with or without a
  client, the helper resolves and never rejects.
\<close>

theorem helpers_absorb_failures:
  "(path_fails parse generateContent parseResume_schema ''{}'' \<longrightarrow>
      parseResumeDocument parse (Some c) generateContent base64Data mimeType = Inr MOCK_RESUME) \<and>
   (path_fails parse generateContent learningPath_schema ''[]'' \<longrightarrow>
      generateLearningPath parse (Some c) generateContent role currentSkills = Inr (JArr MOCK_RESOURCES)) \<and>
   (path_fails parse generateContent quiz_schema ''[]'' \<longrightarrow>
      generateQuiz parse (Some c) generateContent role difficulty topic = Inr (JArr MOCK_QUIZ)) \<and>
   (path_fails parse generateContent aptitudePrep_schema ''[]'' \<longrightarrow>
      generateAptitudePrep parse (Some c) generateContent = Inr (JArr MOCK_RESOURCES)) \<and>
   (path_fails parse generateContent fullMockTest_schema ''[]'' \<longrightarrow>
      generateFullMockTest parse (Some c) generateContent role = Inr (JArr (MOCK_QUIZ @ MOCK_QUIZ))) \<and>
   (request_rejected generateContent search_request \<longrightarrow>
      searchJobs (Some c) generateContent role loc = Inr MOCK_JOBS) \<and>
   (\<forall>v. parsed parse generateContent parseResume_schema ''{}'' = Some v \<longrightarrow>
      parseResumeDocument parse (Some c) generateContent base64Data mimeType = Inr v) \<and>
   (\<forall>v. parsed parse generateContent learningPath_schema ''[]'' = Some v \<longrightarrow>
      generateLearningPath parse (Some c) generateContent role currentSkills = Inr v) \<and>
   (\<forall>v. parsed parse generateContent quiz_schema ''[]'' = Some v \<longrightarrow>
      generateQuiz parse (Some c) generateContent role difficulty topic = Inr v) \<and>
   (\<forall>v. parsed parse generateContent aptitudePrep_schema ''[]'' = Some v \<longrightarrow>
      generateAptitudePrep parse (Some c) generateContent = Inr v) \<and>
   (\<forall>v. parsed parse generateContent fullMockTest_schema ''[]'' = Some v \<longrightarrow>
      generateFullMockTest parse (Some c) generateContent role = Inr v) \<and>
   (\<exists>v. parseResumeDocument parse ai generateContent base64Data mimeType = Inr v) \<and>
   (\<exists>v. generateLearningPath parse ai generateContent role currentSkills = Inr v) \<and>
   (\<exists>v. generateQuiz parse ai generateContent role difficulty topic = Inr v) \<and>
   (\<exists>v. generateAptitudePrep parse ai generateContent = Inr v) \<and>
   (\<exists>v. generateFullMockTest parse ai generateContent role = Inr v) \<and>
   (\<exists>v. searchJobs ai generateContent role loc = Inr v)"
proof -
  have r: "\<And>c. parseResumeDocument parse (Some c) generateContent base64Data mimeType =
      (case request_json parse generateContent parseResume_schema ''{}'' of
         Inr v \<Rightarrow> Inr v | Inl err \<Rightarrow> Inr (handleOfflineError err MOCK_RESUME ''parseResumeDocument''))"
    by (simp add: parseResumeDocument_def)
  have l: "\<And>c. generateLearningPath parse (Some c) generateContent role currentSkills =
      (case request_json parse generateContent learningPath_schema ''[]'' of
         Inr v \<Rightarrow> Inr v | Inl err \<Rightarrow> Inr (handleOfflineError err (JArr MOCK_RESOURCES) ''generateLearningPath''))"
    by (simp add: generateLearningPath_def)
  have q: "\<And>c. generateQuiz parse (Some c) generateContent role difficulty topic =
      (case request_json parse generateContent quiz_schema ''[]'' of
         Inr v \<Rightarrow> Inr v | Inl err \<Rightarrow> Inr (handleOfflineError err (JArr MOCK_QUIZ) ''generateQuiz''))"
    by (simp add: generateQuiz_def)
  have p: "\<And>c. generateAptitudePrep parse (Some c) generateContent =
      (case request_json parse generateContent aptitudePrep_schema ''[]'' of
         Inr v \<Rightarrow> Inr v | Inl err \<Rightarrow> Inr (handleOfflineError err (JArr MOCK_RESOURCES) ''generateAptitudePrep''))"
    by (simp add: generateAptitudePrep_def)
  have f: "\<And>c. generateFullMockTest parse (Some c) generateContent role =
      (case request_json parse generateContent fullMockTest_schema ''[]'' of
         Inr v \<Rightarrow> Inr v | Inl err \<Rightarrow> Inr (handleOfflineError err (JArr (MOCK_QUIZ @ MOCK_QUIZ)) ''generateFullMockTest''))"
    by (simp add: generateFullMockTest_def)
  have j: "request_rejected generateContent search_request \<Longrightarrow>
      searchJobs (Some c) generateContent role loc = Inr MOCK_JOBS"
    by (simp add: searchJobs_def request_rejected_def search_request_def handleOfflineError_def
        split: api_result.splits)
  have e1: "\<exists>v. parseResumeDocument parse ai generateContent base64Data mimeType = Inr v"
    by (cases ai) (simp add: parseResumeDocument_def, use json_helper_absorbs [OF r] in blast)
  have e2: "\<exists>v. generateLearningPath parse ai generateContent role currentSkills = Inr v"
    by (cases ai) (simp add: generateLearningPath_def, use json_helper_absorbs [OF l] in blast)
  have e3: "\<exists>v. generateQuiz parse ai generateContent role difficulty topic = Inr v"
    by (cases ai) (simp add: generateQuiz_def, use json_helper_absorbs [OF q] in blast)
  have e4: "\<exists>v. generateAptitudePrep parse ai generateContent = Inr v"
    by (cases ai) (simp add: generateAptitudePrep_def, use json_helper_absorbs [OF p] in blast)
  have e5: "\<exists>v. generateFullMockTest parse ai generateContent role = Inr v"
    by (cases ai) (simp add: generateFullMockTest_def, use json_helper_absorbs [OF f] in blast)
  have e6: "\<exists>v. searchJobs ai generateContent role loc = Inr v"
    by (cases ai; cases "generateContent \<lparr> responseSchema = None, googleSearch = True \<rparr>")
       (simp_all add: searchJobs_def Let_def)
  note R = json_helper_absorbs [OF r] and L = json_helper_absorbs [OF l]
    and Q = json_helper_absorbs [OF q] and P = json_helper_absorbs [OF p]
    and F = json_helper_absorbs [OF f]
  show ?thesis
    using R [of c] L [of c] Q [of c] P [of c] F [of c] j e1 e2 e3 e4 e5 e6 by blast
qed

lemmas json_parse_defs = JSON_parse_def json_ws_def parse_literal_def parse_number_def
  is_digit_def digits_value_def

lemmas cleanJson_defs = cleanJson_def strip_open_fence_def strip_close_fence_def trim_def
  js_space_def or_else_def truthy_def

text \<open>
  Claim C5 as stated fails on a schema mismatch: a response whose text is \<open>{}\<close> parses, so
  \<open>parseResumeDocument\<close> resolves to the empty object, which is neither of the declared
  shape nor the mock.
\<close>

theorem schema_mismatch_counterexample:
  "parseResumeDocument JSON_parse (Some a_client) (answers ''{}'') ''data'' ''application/pdf'' =
     Inr (JObj []) \<and>
   \<not> conforms parseResume_schema (JObj []) \<and>
   JObj [] \<noteq> MOCK_RESUME"
  by (simp add: parseResumeDocument_def request_json_def answers_def cleanJson_defs
      json_parse_defs parseResume_schema_def MOCK_RESUME_def)


theorem helpers_absorb_failures_witness:
  "path_fails JSON_parse rejecting parseResume_schema ''{}'' \<and>
   parseResumeDocument JSON_parse (Some a_client) rejecting ''data'' ''application/pdf'' =
     Inr MOCK_RESUME \<and>
   path_fails JSON_parse (answers ''Sorry, I cannot help.'') quiz_schema ''[]'' \<and>
   generateQuiz JSON_parse (Some a_client) (answers ''Sorry, I cannot help.'') ''Developer'' Easy
       ''Technical'' = Inr (JArr MOCK_QUIZ) \<and>
   request_rejected rejecting search_request \<and>
   searchJobs (Some a_client) rejecting ''Developer'' ''Remote'' = Inr MOCK_JOBS \<and>
   parsed JSON_parse (answers ''```json\<newline>[]\<newline>```'') learningPath_schema ''[]'' = Some (JArr []) \<and>
   generateLearningPath JSON_parse (Some a_client) (answers ''```json\<newline>[]\<newline>```'') ''Developer''
       [''React''] = Inr (JArr [])"
proof -
  have h1: "path_fails JSON_parse rejecting parseResume_schema ''{}''"
    by (simp add: path_fails_def parsed_def rejecting_def)
  have h2: "path_fails JSON_parse (answers ''Sorry, I cannot help.'') quiz_schema ''[]''"
    by (simp add: path_fails_def parsed_def answers_def cleanJson_defs json_parse_defs)
  have h3: "request_rejected rejecting search_request"
    by (simp add: request_rejected_def rejecting_def)
  have h4: "parsed JSON_parse (answers ''```json\<newline>[]\<newline>```'') learningPath_schema ''[]'' = Some (JArr [])"
    by (simp add: parsed_def answers_def cleanJson_defs json_parse_defs)
  show ?thesis
    using helpers_absorb_failures [of JSON_parse rejecting a_client "''data''" "''application/pdf''"
        "''Developer''" "[''React'']" Easy "''Technical''" "''Remote''" None]
      helpers_absorb_failures [of JSON_parse "answers ''Sorry, I cannot help.''" a_client "''data''"
        "''application/pdf''" "''Developer''" "[''React'']" Easy "''Technical''" "''Remote''" None]
      helpers_absorb_failures [of JSON_parse "answers ''```json\<newline>[]\<newline>```''" a_client "''data''"
        "''application/pdf''" "''Developer''" "[''React'']" Easy "''Technical''" "''Remote''" None]
      h1 h2 h3 h4
    by simp
qed

subsection \<open>Job search from grounding citations\<close>

lemma listings_cited:
  "map (\<lambda>c. \<lparr> title = or_else (chunk_title c) ''Job Opening'', company = ''Source: Web'',
               location = loc, url = or_else (chunk_uri c) ''#'' \<rparr>)
     (filter (\<lambda>c. truthy (chunk_uri c) \<and> truthy (chunk_title c)) chunks) =
   map (citation_listing loc) (cited chunks)"
  by (induction chunks)
     (auto simp: citation_listing_def chunk_uri_def chunk_title_def truthy_def or_else_def
      split: option.splits)

text \<open>
  Claim C8. With an active client whose search request resolves, \<open>searchJobs\<close> resolves to
  the citations that have both a non-empty title and a non-empty link, in order, each as a
  listing with the citation's title, the citation's link as url and the requested location,
  cut to the first six; when there is no such citation it resolves to exactly one listing,
  the generic search-results one. The result has between one and six listings.
\<close>

theorem search_jobs_grounded:
  assumes "generateContent search_request = Resolves r"
  shows "searchJobs (Some c) generateContent role loc =
           Inr (if cited (chunks_of r) = [] then [search_results_listing role loc]
                else take 6 (map (citation_listing loc) (cited (chunks_of r)))) \<and>
         (\<exists>ls. searchJobs (Some c) generateContent role loc = Inr ls \<and>
               1 \<le> length ls \<and> length ls \<le> 6)"
proof -
  have req: "generateContent \<lparr> responseSchema = None, googleSearch = True \<rparr> = Resolves r"
    using assms by (simp add: search_request_def)
  have eq: "searchJobs (Some c) generateContent role loc =
           Inr (if cited (chunks_of r) = [] then [search_results_listing role loc]
                else take 6 (map (citation_listing loc) (cited (chunks_of r))))"
    by (simp add: searchJobs_def req Let_def listings_cited search_results_listing_def)
  have "1 \<le> length (take 6 (map (citation_listing loc) (cited (chunks_of r))))"
    if "cited (chunks_of r) \<noteq> []"
    using that by (cases "cited (chunks_of r)") simp_all
  then show ?thesis unfolding eq by simp
qed

theorem search_jobs_grounded_witness:
  "grounded eight_chunks search_request =
     Resolves \<lparr> response_text = None,
                candidates = Some [\<lparr> groundingChunks = Some (Some eight_chunks) \<rparr>] \<rparr> \<and>
   searchJobs (Some a_client) (grounded eight_chunks) ''Developer'' ''Remote'' =
     Inr [\<lparr> title = ''Job A'', company = ''Source: Web'', location = ''Remote'', url = ''https://a.example'' \<rparr>,
          \<lparr> title = ''Job B'', company = ''Source: Web'', location = ''Remote'', url = ''https://b.example'' \<rparr>,
          \<lparr> title = ''Job C'', company = ''Source: Web'', location = ''Remote'', url = ''https://c.example'' \<rparr>,
          \<lparr> title = ''Job D'', company = ''Source: Web'', location = ''Remote'', url = ''https://d.example'' \<rparr>,
          \<lparr> title = ''Job E'', company = ''Source: Web'', location = ''Remote'', url = ''https://e.example'' \<rparr>,
          \<lparr> title = ''Job F'', company = ''Source: Web'', location = ''Remote'', url = ''https://f.example'' \<rparr>] \<and>
   grounded [] search_request =
     Resolves \<lparr> response_text = None, candidates = Some [\<lparr> groundingChunks = Some (Some []) \<rparr>] \<rparr> \<and>
   searchJobs (Some a_client) (grounded []) ''Data Engineer'' ''Remote'' =
     Inr [\<lparr> title = ''Data Engineer - Search Results'', company = ''Google Search'',
            location = ''Remote'',
            url = ''https://www.google.com/search?q=Data%20Engineer%20jobs'' \<rparr>]"
proof -
  have g1: "grounded eight_chunks search_request =
     Resolves \<lparr> response_text = None,
                candidates = Some [\<lparr> groundingChunks = Some (Some eight_chunks) \<rparr>] \<rparr>"
    by (simp add: grounded_def)
  have g2: "grounded [] search_request =
     Resolves \<lparr> response_text = None, candidates = Some [\<lparr> groundingChunks = Some (Some []) \<rparr>] \<rparr>"
    by (simp add: grounded_def)
  have c1: "cited eight_chunks =
      [(''Job A'', ''https://a.example''), (''Job B'', ''https://b.example''),
       (''Job C'', ''https://c.example''), (''Job D'', ''https://d.example''),
       (''Job E'', ''https://e.example''), (''Job F'', ''https://f.example''),
       (''Job G'', ''https://g.example'')]"
    by (simp add: eight_chunks_def web_chunk_def)
  have e: "encodeURIComponent ''Data Engineer jobs'' = ''Data%20Engineer%20jobs''"
    by (simp add: encodeURIComponent_def encode_unit_def uri_unreserved_def percent_def)
  show ?thesis
    using search_jobs_grounded [of "grounded eight_chunks" _ a_client "''Developer''" "''Remote''", OF g1]
      search_jobs_grounded [of "grounded []" _ a_client "''Data Engineer''" "''Remote''", OF g2]
      g1 g2
    by (simp add: chunks_of_def c1 citation_listing_def search_results_listing_def e)
qed

subsection \<open>Fence stripping\<close>

text \<open>
  Claim C9. \<open>cleanJson\<close> turns the fenced text into the plain text \<open>{"a":1}\<close>, so parsing
  one gives what parsing the other gives (with the reference parser, the object with
  member \<open>a\<close> equal to 1, and with any other parser as well); \<open>cleanJson\<close> of the empty
  string is \<open>{}\<close>, which parses to the empty object.
\<close>

theorem clean_json_fence:
  \<open>cleanJson ''```json\<newline>{"a":1}\<newline>```'' = ''{"a":1}'' \<and>
   JSON_parse (cleanJson ''```json\<newline>{"a":1}\<newline>```'') = JSON_parse ''{"a":1}'' \<and>
   JSON_parse ''{"a":1}'' = Some (JObj [(''a'', JNum 1)]) \<and>
   parse (cleanJson ''```json\<newline>{"a":1}\<newline>```'') = parse ''{"a":1}'' \<and>
   cleanJson [] = ''{}'' \<and>
   JSON_parse (cleanJson []) = Some (JObj [])\<close>
proof -
  have c: \<open>cleanJson ''```json\<newline>{"a":1}\<newline>```'' = ''{"a":1}''\<close>
    by (simp add: cleanJson_defs)
  have e: "cleanJson [] = ''{}''" by (simp add: cleanJson_def)
  have p: \<open>JSON_parse ''{"a":1}'' = Some (JObj [(''a'', JNum 1)])\<close>
    by (simp add: json_parse_defs)
  have q: "JSON_parse ''{}'' = Some (JObj [])"
    by (simp add: json_parse_defs)
  show ?thesis using p q by (simp only: c e simp_thms)
qed

end
